theory Spec2Isabelle
  imports Complex_Main "HOL-Library.FSet" "HOL-Library.List_Lexorder" "HOL-Library.Char_ord"
begin

section \<open>The engine of adventure\_game.py, embedded\<close>

text \<open>
  The Python source is one module: four dataclasses (\<open>Item\<close>, \<open>Room\<close>, \<open>Player\<close>,
  \<open>Phantom\<close>) and the class \<open>Game\<close> with its handlers, the snapshot system and the
  main loop \<open>start\<close>. Every method that mutates \<open>self\<close> becomes a function from the
  state to the state. The state record \<open>game\<close> holds the attributes of the \<open>Game\<close>
  object and the parts of the process the methods touch: the module-global random
  generator, the lines still to be read from standard input, the file \<open>save.json\<close>,
  the flag \<open>SoundEngine.enabled\<close>, the messages printed so far and the exception that
  is propagating, if any.

  Colours, panels, tables, beeps, the screen shake's blank lines and \<open>time.sleep\<close> change
  no attribute and are left out, except that every \<open>console.print\<close> of a handler is
  recorded as a message and every draw from the random generator is kept (the screen
  shake draws three times).
\<close>

subsection \<open>Strings\<close>

text \<open>Characters are bytes here; the source's strings are ASCII.\<close>

definition lower_char :: "char \<Rightarrow> char" where
  "lower_char c =
     (case map_of (zip ''ABCDEFGHIJKLMNOPQRSTUVWXYZ'' ''abcdefghijklmnopqrstuvwxyz'') c of
        Some d \<Rightarrow> d
      | None \<Rightarrow> c)"

definition upper_char :: "char \<Rightarrow> char" where
  "upper_char c =
     (case map_of (zip ''abcdefghijklmnopqrstuvwxyz'' ''ABCDEFGHIJKLMNOPQRSTUVWXYZ'') c of
        Some d \<Rightarrow> d
      | None \<Rightarrow> c)"

definition isupper_char :: "char \<Rightarrow> bool" where
  "isupper_char c = (c \<in> set ''ABCDEFGHIJKLMNOPQRSTUVWXYZ'')"

definition lower :: "string \<Rightarrow> string" where
  "lower s = map lower_char s"

text \<open>\<open>str.capitalize\<close>: first character upper case, the rest lower case.\<close>

fun capitalize :: "string \<Rightarrow> string" where
  "capitalize [] = []"
| "capitalize (c # cs) = upper_char c # map lower_char cs"

text \<open>
  The characters \<open>str.isspace\<close> accepts among the first 128: tab, line feed, vertical
  tab, form feed, carriage return, the four separators 28 to 31, and the space.
\<close>

definition isspace :: "char \<Rightarrow> bool" where
  "isspace c = (c \<in> set [CHR 0x09, CHR 0x0A, CHR 0x0B, CHR 0x0C, CHR 0x0D,
                           CHR 0x1C, CHR 0x1D, CHR 0x1E, CHR 0x1F, CHR 0x20])"

definition strip_of :: "(char \<Rightarrow> bool) \<Rightarrow> string \<Rightarrow> string" where
  "strip_of p s = rev (dropWhile p (rev (dropWhile p s)))"

text \<open>\<open>s.strip()\<close> and \<open>s.strip(chars)\<close>.\<close>

definition strip :: "string \<Rightarrow> string" where
  "strip s = strip_of isspace s"

definition strip_chars :: "string \<Rightarrow> string \<Rightarrow> string" where
  "strip_chars cs s = strip_of (\<lambda>c. c \<in> set cs) s"

text \<open>
  \<open>s.split()\<close>: the maximal runs of characters that are not white space. The
  accumulator holds the run being read, reversed.
\<close>

fun split_acc :: "string \<Rightarrow> string \<Rightarrow> string list" where
  "split_acc acc [] = (if acc = [] then [] else [rev acc])"
| "split_acc acc (c # cs) =
     (if isspace c then (if acc = [] then split_acc [] cs else rev acc # split_acc [] cs)
      else split_acc (c # acc) cs)"

definition split :: "string \<Rightarrow> string list" where
  "split s = split_acc [] s"

text \<open>\<open>sep.join(xs)\<close>.\<close>

fun join :: "string \<Rightarrow> string list \<Rightarrow> string" where
  "join sep [] = []"
| "join sep [x] = x"
| "join sep (x # y # ys) = x @ sep @ join sep (y # ys)"

fun startswith :: "string \<Rightarrow> string \<Rightarrow> bool" where
  "startswith _ [] = True"
| "startswith [] (p # ps) = False"
| "startswith (c # cs) (p # ps) = (c = p \<and> startswith cs ps)"

text \<open>\<open>sub in s\<close> on strings.\<close>

fun str_in :: "string \<Rightarrow> string \<Rightarrow> bool" where
  "str_in sub [] = (sub = [])"
| "str_in sub (c # cs) = (startswith (c # cs) sub \<or> str_in sub cs)"

text \<open>
  \<open>s.replace(old, new)\<close> for a non-empty \<open>old\<close>: every occurrence, left to right, not
  overlapping. (The source only replaces \<open>"up "\<close>.)
\<close>

fun replace :: "char \<Rightarrow> string \<Rightarrow> string \<Rightarrow> string \<Rightarrow> string" where
  "replace o1 os new [] = []"
| "replace o1 os new (c # cs) =
     (if startswith (c # cs) (o1 # os) then new @ replace o1 os new (drop (length os) cs)
      else c # replace o1 os new cs)"

text \<open>\<open>str(n)\<close> for an integer.\<close>

definition digit_char :: "nat \<Rightarrow> char" where
  "digit_char d = ''0123456789'' ! d"

function str_nat :: "nat \<Rightarrow> string" where
  "str_nat n = (if n < 10 then [digit_char n] else str_nat (n div 10) @ [digit_char (n mod 10)])"
  by pat_completeness auto
termination
  by (relation "measure id") auto

declare str_nat.simps [simp del]

definition str_int :: "int \<Rightarrow> string" where
  "str_int i = (if i < 0 then CHR ''-'' # str_nat (nat (- i)) else str_nat (nat i))"

subsection \<open>Configuration\<close>

definition MAX_INV_SLOTS :: nat where "MAX_INV_SLOTS = 5"
definition STARTING_SANITY :: int where "STARTING_SANITY = 100"
definition STARTING_BATTERY :: int where "STARTING_BATTERY = 100"
definition BATTERY_RESTORE :: int where "BATTERY_RESTORE = 40"
definition SANITY_RESTORE_AMULET :: int where "SANITY_RESTORE_AMULET = 25"
definition DRAIN_MOVE :: real where "DRAIN_MOVE = 1"
definition DRAIN_WRONG_CODE :: real where "DRAIN_WRONG_CODE = 3"
definition DRAIN_HINT :: real where "DRAIN_HINT = 5"
definition DRAIN_PHANTOM_ATTACK :: real where "DRAIN_PHANTOM_ATTACK = 15"
definition BAT_DRAIN_NORMAL :: real where "BAT_DRAIN_NORMAL = 2"
definition BAT_DRAIN_DARK :: real where "BAT_DRAIN_DARK = 5"
definition BAT_COST_FLASH :: real where "BAT_COST_FLASH = 20"
definition CHANCE_PHANTOM_MOVE :: real where "CHANCE_PHANTOM_MOVE = 45 / 100"
definition THRESH_HALLUCINATE :: int where "THRESH_HALLUCINATE = 60"
definition FUZZY_CONFIDENCE :: int where "FUZZY_CONFIDENCE = 80"

text \<open>
  The multipliers 0.5, 1.0 and 1.5 and the drains they scale are small binary
  fractions, so the source's floating-point products are exact and the reals model them
  exactly. \<open>random.random()\<close> returns a multiple of \<open>2^-53\<close>; such a number is below
  the double nearest to 0.45 (or 0.4) exactly when it is below 45/100 (or 4/10), so the
  thresholds are the exact fractions.

  \<open>int(x)\<close> on a float truncates towards zero.
\<close>

definition py_int :: "real \<Rightarrow> int" where
  "py_int x = (if 0 \<le> x then \<lfloor>x\<rfloor> else \<lceil>x\<rceil>)"

subsection \<open>Data structures\<close>

record item =
  iid :: string
  iname :: string
  idesc :: string
  takeable :: bool
  interactable :: bool
  hidden_text :: "string option"
  ivalue :: int

text \<open>A Python \<open>dict\<close> is an association list in insertion order, its keys distinct.\<close>

record room =
  rid :: string
  rname :: string
  rdesc :: string
  exits :: "(string \<times> string) list"
  items :: "item list"
  dark :: bool
  locked :: bool
  key_id :: "string option"

record player =
  room_id :: string
  inventory :: "item list"
  visited :: "string fset"
  journal :: "string list"
  sanity :: int
  battery :: int
  turns :: int
  alive :: bool
  escaped :: bool
  tutorial_done :: bool
  difficulty :: string

record phantom =
  ph_room_id :: string
  active :: bool
  stun_timer :: int

text \<open>
  The random generator, seen from outside: what \<open>random.random()\<close> returns next and
  what \<open>_randbelow(n)\<close> (behind \<open>randint\<close> and \<open>choice\<close>) returns next, each with the
  generator that follows. Every deterministic generator is a value of this type.
\<close>

codatatype rng = Rng (next_random: "real \<times> rng") (next_below: "nat \<Rightarrow> nat \<times> rng")

text \<open>A generator answers \<open>_randbelow(n)\<close> with a number below \<open>n\<close>; \<open>mod\<close> keeps only those.\<close>

definition randbelow :: "nat \<Rightarrow> rng \<Rightarrow> nat \<times> rng" where
  "randbelow n g = (case next_below g n of (k, g') \<Rightarrow> (k mod n, g'))"

text \<open>\<open>random.randint(a, b)\<close> is \<open>a + _randbelow(b - a + 1)\<close>.\<close>

definition randint :: "int \<Rightarrow> int \<Rightarrow> rng \<Rightarrow> int \<times> rng" where
  "randint a b g = (case randbelow (nat (b - a + 1)) g of (k, g') \<Rightarrow> (a + int k, g'))"

text \<open>\<open>random.choice(xs)\<close> on a non-empty list is \<open>xs[_randbelow(len(xs))]\<close>.\<close>

definition choice :: "'a list \<Rightarrow> rng \<Rightarrow> 'a \<times> rng" where
  "choice xs g = (case randbelow (length xs) g of (k, g') \<Rightarrow> (xs ! k, g'))"

subsection \<open>JSON\<close>

text \<open>
  The values \<open>json.loads\<close> returns, without floats (no snapshot contains one). An object
  is the dictionary \<open>json.loads\<close> builds: keys distinct, in the order of the text.
\<close>

datatype json =
  JNull
| JBool bool
| JInt int
| JStr string
| JArr "json list"
| JObj "(string \<times> json) list"

text \<open>
  A text is what \<open>json.dumps\<close> writes and \<open>json.loads\<close> reads: either the encoding of a
  value, or a text that is not JSON. (Texts that encode the same value are not told
  apart.)
\<close>

datatype jtext = Encodes json | Unparsable

text \<open>
  The exceptions of the source. \<open>IllTyped\<close> is not a Python exception: Python binds any
  value to any attribute, and where a snapshot would put a value of another type into a
  field (\<open>"sanity": "x"\<close>), the records above cannot hold the result. The model stops
  there with \<open>IllTyped\<close>; no theorem below says what happens next.
\<close>

datatype py_error = KeyError | TypeError | AttributeError | JSONDecodeError | EOFError | IllTyped

definition json_dumps :: "json \<Rightarrow> jtext" where
  "json_dumps j = Encodes j"

definition json_loads :: "jtext \<Rightarrow> py_error + json" where
  "json_loads t = (case t of Encodes j \<Rightarrow> Inr j | Unparsable \<Rightarrow> Inl JSONDecodeError)"

subsection \<open>The state\<close>

text \<open>
  What the console shows: the argument of each \<open>console.print\<close>, a markup string, a
  panel (its title, then its body) or a table (its title, then its rows).
\<close>

datatype msg = Line string | Panel string string | Table string "(string \<times> string) list"

record game =
  seed :: string
  rooms :: "(string \<times> room) list"
  player :: player
  phantom :: phantom
  safe_code :: string
  piano_solved :: bool
  history :: "jtext list"
  rand :: rng
  stdin :: "string list"
  save_json :: "jtext option"
  sound_enabled :: bool
  console :: "msg list"
  exc :: "py_error option"

definition print :: "msg \<Rightarrow> game \<Rightarrow> game" where
  "print m g = g\<lparr>console := console g @ [m]\<rparr>"

definition raise :: "py_error \<Rightarrow> game \<Rightarrow> game" where
  "raise e g = g\<lparr>exc := Some e\<rparr>"

text \<open>Sequencing: the second statement runs unless the first raised.\<close>

definition and_then :: "(game \<Rightarrow> game) \<Rightarrow> (game \<Rightarrow> game) \<Rightarrow> game \<Rightarrow> game" where
  "and_then f h g = (let g' = f g in if exc g' = None then h g' else g')"

definition bind_res :: "py_error + 'a \<Rightarrow> ('a \<Rightarrow> py_error + 'b) \<Rightarrow> py_error + 'b" where
  "bind_res m f = (case m of Inl e \<Rightarrow> Inl e | Inr x \<Rightarrow> f x)"

text \<open>An assignment \<open>self.x = e\<close> whose right-hand side may raise.\<close>

definition assign :: "py_error + 'a \<Rightarrow> ('a \<Rightarrow> game \<Rightarrow> game) \<Rightarrow> game \<Rightarrow> game" where
  "assign v store g = (case v of Inl e \<Rightarrow> raise e g | Inr x \<Rightarrow> store x g)"

subsection \<open>Helpers\<close>

text \<open>
  \<open>self._room(rid)\<close> is \<open>self.rooms[rid if rid else self.player.room_id]\<close>: no argument,
  \<open>None\<close> or the empty string mean the player's room. \<open>room_key\<close> is the key looked up,
  \<open>room_of\<close> the room found (\<open>None\<close> stands for the \<open>KeyError\<close>).
\<close>

definition room_key :: "game \<Rightarrow> string option \<Rightarrow> string" where
  "room_key g r = (case r of Some (c # cs) \<Rightarrow> c # cs | _ \<Rightarrow> room_id (player g))"

definition room_of :: "game \<Rightarrow> string option \<Rightarrow> room option" where
  "room_of g r = map_of (rooms g) (room_key g r)"

text \<open>A method that mutates the room object stored under a key.\<close>

definition upd_room :: "string \<Rightarrow> (room \<Rightarrow> room) \<Rightarrow> game \<Rightarrow> game" where
  "upd_room k f g =
     g\<lparr>rooms := map (\<lambda>kr. if fst kr = k then (fst kr, f (snd kr)) else kr) (rooms g)\<rparr>"

definition has :: "game \<Rightarrow> string \<Rightarrow> bool" where
  "has g item_id = list_ex (\<lambda>i. iid i = item_id) (inventory (player g))"

definition diff_mult :: "game \<Rightarrow> real" where
  "diff_mult g =
     (if difficulty (player g) = ''story'' then 0.5
      else if difficulty (player g) = ''hard'' then 1.5
      else 1.0)"

text \<open>\<open>d[k] = v\<close> on a dictionary: in place if the key is there, else appended.\<close>

fun dict_set :: "'k \<Rightarrow> 'v \<Rightarrow> ('k \<times> 'v) list \<Rightarrow> ('k \<times> 'v) list" where
  "dict_set k v [] = [(k, v)]"
| "dict_set k v (kv # kvs) = (if fst kv = k then (k, v) # kvs else kv # dict_set k v kvs)"

definition apos :: string where
  "apos = [CHR 0x27]"

subsection \<open>Save/undo system\<close>

text \<open>\<open>asdict\<close> of the dataclasses, in field order.\<close>

definition item_json :: "item \<Rightarrow> json" where
  "item_json i =
     JObj [(''id'', JStr (iid i)), (''name'', JStr (iname i)), (''desc'', JStr (idesc i)),
           (''takeable'', JBool (takeable i)), (''interactable'', JBool (interactable i)),
           (''hidden_text'', (case hidden_text i of None \<Rightarrow> JNull | Some t \<Rightarrow> JStr t)),
           (''value'', JInt (ivalue i))]"

text \<open>
  \<open>list(self.player.visited)\<close> lists the set in the order of the hash table; the model
  lists it in the order of the strings. \<open>_restore\<close> turns the list into a set again, so
  the order is never seen.
\<close>

definition player_json :: "player \<Rightarrow> json" where
  "player_json p =
     JObj [(''room_id'', JStr (room_id p)),
           (''inventory'', JArr (map item_json (inventory p))),
           (''visited'', JArr (map JStr (sorted_list_of_fset (visited p)))),
           (''journal'', JArr (map JStr (journal p))),
           (''sanity'', JInt (sanity p)), (''battery'', JInt (battery p)),
           (''turns'', JInt (turns p)), (''alive'', JBool (alive p)),
           (''escaped'', JBool (escaped p)), (''tutorial_done'', JBool (tutorial_done p)),
           (''difficulty'', JStr (difficulty p))]"

definition phantom_json :: "phantom \<Rightarrow> json" where
  "phantom_json f =
     JObj [(''room_id'', JStr (ph_room_id f)), (''active'', JBool (active f)),
           (''stun_timer'', JInt (stun_timer f))]"

definition room_json :: "room \<Rightarrow> json" where
  "room_json r =
     JObj [(''locked'', JBool (locked r)),
           (''items'', JArr (map item_json (items r))),
           (''exits'', JObj (map (\<lambda>e. (fst e, JStr (snd e))) (exits r)))]"

definition snapshot :: "game \<Rightarrow> jtext" where
  "snapshot g =
     json_dumps (JObj [(''player'', player_json (player g)),
                       (''phantom'', phantom_json (phantom g)),
                       (''seed'', JStr (seed g)),
                       (''safe_code'', JStr (safe_code g)),
                       (''piano_solved'', JBool (piano_solved g)),
                       (''rooms'', JObj (map (\<lambda>kr. (fst kr, room_json (snd kr))) (rooms g)))])"

text \<open>\<open>d[k]\<close> on a loaded value: only a dictionary can be indexed by a string.\<close>

definition subscript :: "json \<Rightarrow> string \<Rightarrow> py_error + json" where
  "subscript d k =
     (case d of
        JObj kvs \<Rightarrow> (case map_of kvs k of None \<Rightarrow> Inl KeyError | Some v \<Rightarrow> Inr v)
      | _ \<Rightarrow> Inl TypeError)"

text \<open>A keyword argument, or the field's default.\<close>

definition kwarg :: "(string \<times> json) list \<Rightarrow> string \<Rightarrow> json \<Rightarrow> json" where
  "kwarg kvs k dflt = (case map_of kvs k of None \<Rightarrow> dflt | Some v \<Rightarrow> v)"

text \<open>
  A dataclass constructor called as \<open>C(**d)\<close> raises \<open>TypeError\<close> on a keyword that is not
  a field and on a missing field that has no default.
\<close>

definition kwargs_ok :: "string list \<Rightarrow> string list \<Rightarrow> (string \<times> json) list \<Rightarrow> bool" where
  "kwargs_ok names required kvs =
     (list_all (\<lambda>kv. fst kv \<in> set names) kvs \<and>
      list_all (\<lambda>k. map_of kvs k \<noteq> None) required)"

text \<open>The value of a field, read at the field's declared type.\<close>

definition as_str :: "json \<Rightarrow> py_error + string" where
  "as_str j = (case j of JStr s \<Rightarrow> Inr s | _ \<Rightarrow> Inl IllTyped)"

definition as_bool :: "json \<Rightarrow> py_error + bool" where
  "as_bool j = (case j of JBool b \<Rightarrow> Inr b | _ \<Rightarrow> Inl IllTyped)"

definition as_int :: "json \<Rightarrow> py_error + int" where
  "as_int j = (case j of JInt i \<Rightarrow> Inr i | _ \<Rightarrow> Inl IllTyped)"

definition as_opt_str :: "json \<Rightarrow> py_error + string option" where
  "as_opt_str j = (case j of JNull \<Rightarrow> Inr None | JStr s \<Rightarrow> Inr (Some s) | _ \<Rightarrow> Inl IllTyped)"

fun traverse :: "('a \<Rightarrow> py_error + 'b) \<Rightarrow> 'a list \<Rightarrow> py_error + 'b list" where
  "traverse f [] = Inr []"
| "traverse f (x # xs) =
     bind_res (f x) (\<lambda>y. bind_res (traverse f xs) (\<lambda>ys. Inr (y # ys)))"

definition as_str_list :: "json \<Rightarrow> py_error + string list" where
  "as_str_list j = (case j of JArr js \<Rightarrow> traverse as_str js | _ \<Rightarrow> Inl IllTyped)"

definition as_exits :: "json \<Rightarrow> py_error + (string \<times> string) list" where
  "as_exits j =
     (case j of
        JObj kvs \<Rightarrow> traverse (\<lambda>kv. bind_res (as_str (snd kv)) (\<lambda>v. Inr (fst kv, v))) kvs
      | _ \<Rightarrow> Inl IllTyped)"

text \<open>\<open>Item(**i)\<close>.\<close>

definition Item_kwargs :: "json \<Rightarrow> py_error + item" where
  "Item_kwargs j =
     (case j of
        JObj kvs \<Rightarrow>
          if \<not> kwargs_ok [''id'', ''name'', ''desc'', ''takeable'', ''interactable'',
                           ''hidden_text'', ''value''] [''id'', ''name'', ''desc''] kvs
          then Inl TypeError
          else
            bind_res (as_str (kwarg kvs ''id'' JNull)) (\<lambda>a.
            bind_res (as_str (kwarg kvs ''name'' JNull)) (\<lambda>b.
            bind_res (as_str (kwarg kvs ''desc'' JNull)) (\<lambda>c.
            bind_res (as_bool (kwarg kvs ''takeable'' (JBool True))) (\<lambda>d.
            bind_res (as_bool (kwarg kvs ''interactable'' (JBool False))) (\<lambda>e.
            bind_res (as_opt_str (kwarg kvs ''hidden_text'' JNull)) (\<lambda>h.
            bind_res (as_int (kwarg kvs ''value'' (JInt 0))) (\<lambda>v.
            Inr \<lparr>iid = a, iname = b, idesc = c, takeable = d, interactable = e,
                 hidden_text = h, ivalue = v\<rparr>)))))))
      | _ \<Rightarrow> Inl TypeError)"

text \<open>
  \<open>[Item(**i) for i in x]\<close>: a list is walked; an empty dictionary or string yields the
  empty list; a non-empty one yields strings, which \<open>**\<close> refuses; anything else is not
  iterable.
\<close>

definition Items_of :: "json \<Rightarrow> py_error + item list" where
  "Items_of x =
     (case x of
        JArr js \<Rightarrow> traverse Item_kwargs js
      | JObj [] \<Rightarrow> Inr []
      | JStr [] \<Rightarrow> Inr []
      | _ \<Rightarrow> Inl TypeError)"

text \<open>
  \<open>Player(**d)\<close>. The fields \<open>inventory\<close> and \<open>visited\<close> are overwritten by the next two
  statements of \<open>_restore\<close>; here they get their defaults.
\<close>

definition Player_kwargs :: "json \<Rightarrow> py_error + player" where
  "Player_kwargs j =
     (case j of
        JObj kvs \<Rightarrow>
          if \<not> kwargs_ok [''room_id'', ''inventory'', ''visited'', ''journal'', ''sanity'',
                           ''battery'', ''turns'', ''alive'', ''escaped'', ''tutorial_done'',
                           ''difficulty''] [''room_id''] kvs
          then Inl TypeError
          else
            bind_res (as_str (kwarg kvs ''room_id'' JNull)) (\<lambda>r.
            bind_res (as_str_list (kwarg kvs ''journal'' (JArr []))) (\<lambda>jn.
            bind_res (as_int (kwarg kvs ''sanity'' (JInt STARTING_SANITY))) (\<lambda>sa.
            bind_res (as_int (kwarg kvs ''battery'' (JInt STARTING_BATTERY))) (\<lambda>ba.
            bind_res (as_int (kwarg kvs ''turns'' (JInt 0))) (\<lambda>tu.
            bind_res (as_bool (kwarg kvs ''alive'' (JBool True))) (\<lambda>al.
            bind_res (as_bool (kwarg kvs ''escaped'' (JBool False))) (\<lambda>es.
            bind_res (as_bool (kwarg kvs ''tutorial_done'' (JBool False))) (\<lambda>td.
            bind_res (as_str (kwarg kvs ''difficulty'' (JStr ''normal''))) (\<lambda>di.
            Inr \<lparr>room_id = r, inventory = [], visited = {||}, journal = jn, sanity = sa,
                 battery = ba, turns = tu, alive = al, escaped = es, tutorial_done = td,
                 difficulty = di\<rparr>)))))))))
      | _ \<Rightarrow> Inl TypeError)"

text \<open>
  \<open>set(x)\<close> for the visited rooms: the strings of a list, the keys of a dictionary, the
  characters of a string.
\<close>

definition visited_of :: "json \<Rightarrow> py_error + string fset" where
  "visited_of x =
     (case x of
        JArr js \<Rightarrow> bind_res (traverse as_str js) (\<lambda>ss. Inr (fset_of_list ss))
      | JObj kvs \<Rightarrow> Inr (fset_of_list (map fst kvs))
      | JStr s \<Rightarrow> Inr (fset_of_list (map (\<lambda>c. [c]) s))
      | _ \<Rightarrow> Inl TypeError)"

text \<open>
  The three statements that restore the player. Between them Python's player holds the
  raw lists of the snapshot; when the second or third statement fails on such a list,
  the state is outside the records (\<open>IllTyped\<close>). When \<open>"inventory"\<close> and \<open>"visited"\<close> are
  both absent, the new player has its defaults and \<open>data["player"]["inventory"]\<close> raises
  \<open>KeyError\<close>.
\<close>

definition restore_player :: "json \<Rightarrow> game \<Rightarrow> game" where
  "restore_player data g =
     (case subscript data ''player'' of
        Inl e \<Rightarrow> raise e g
      | Inr d \<Rightarrow>
          (case Player_kwargs d of
             Inl e \<Rightarrow> raise e g
           | Inr p \<Rightarrow>
               (case subscript d ''inventory'' of
                  Inl e \<Rightarrow>
                    (case subscript d ''visited'' of
                       Inl _ \<Rightarrow> raise e (g\<lparr>player := p\<rparr>)
                     | Inr _ \<Rightarrow> raise IllTyped g)
                | Inr raw \<Rightarrow>
                    (case Items_of raw of
                       Inl _ \<Rightarrow> raise IllTyped g
                     | Inr its \<Rightarrow>
                         (case visited_of (case d of JObj kvs \<Rightarrow> kwarg kvs ''visited'' (JArr [])
                                           | _ \<Rightarrow> JArr []) of
                            Inl _ \<Rightarrow> raise IllTyped g
                          | Inr vs \<Rightarrow> g\<lparr>player := p\<lparr>inventory := its, visited := vs\<rparr>\<rparr>)))))"

text \<open>\<open>Phantom(**d)\<close>.\<close>

definition Phantom_kwargs :: "json \<Rightarrow> py_error + phantom" where
  "Phantom_kwargs j =
     (case j of
        JObj kvs \<Rightarrow>
          if \<not> kwargs_ok [''room_id'', ''active'', ''stun_timer''] [''room_id''] kvs
          then Inl TypeError
          else
            bind_res (as_str (kwarg kvs ''room_id'' JNull)) (\<lambda>r.
            bind_res (as_bool (kwarg kvs ''active'' (JBool False))) (\<lambda>a.
            bind_res (as_int (kwarg kvs ''stun_timer'' (JInt 0))) (\<lambda>t.
            Inr \<lparr>ph_room_id = r, active = a, stun_timer = t\<rparr>)))
      | _ \<Rightarrow> Inl TypeError)"

text \<open>The body of the loop over \<open>data["rooms"].items()\<close>: three assignments, in order.\<close>

definition restore_room :: "string \<Rightarrow> json \<Rightarrow> game \<Rightarrow> game" where
  "restore_room k r_data g =
     (if map_of (rooms g) k \<noteq> None then
        and_then
          (assign (bind_res (subscript r_data ''locked'') as_bool)
             (\<lambda>b. upd_room k (\<lambda>r. r\<lparr>locked := b\<rparr>)))
          (and_then
             (assign (bind_res (subscript r_data ''items'') Items_of)
                (\<lambda>its. upd_room k (\<lambda>r. r\<lparr>items := its\<rparr>)))
             (assign (bind_res (subscript r_data ''exits'') as_exits)
                (\<lambda>ex. upd_room k (\<lambda>r. r\<lparr>exits := ex\<rparr>))))
          g
      else g)"

fun restore_rooms :: "(string \<times> json) list \<Rightarrow> game \<Rightarrow> game" where
  "restore_rooms [] g = g"
| "restore_rooms (kv # kvs) g =
     and_then (restore_room (fst kv) (snd kv)) (restore_rooms kvs) g"

text \<open>\<open>_restore\<close>: statement after statement, each assignment visible to the next.\<close>

definition restore :: "jtext \<Rightarrow> game \<Rightarrow> game" where
  "restore json_str g =
     (case json_loads json_str of
        Inl e \<Rightarrow> raise e g
      | Inr data \<Rightarrow>
          and_then (assign (bind_res (subscript data ''seed'') as_str) (\<lambda>s h. h\<lparr>seed := s\<rparr>))
         (and_then (assign (bind_res (subscript data ''safe_code'') as_str)
                      (\<lambda>s h. h\<lparr>safe_code := s\<rparr>))
         (and_then (assign (case data of
                              JObj kvs \<Rightarrow> as_bool (kwarg kvs ''piano_solved'' (JBool False))
                            | _ \<Rightarrow> Inl AttributeError)
                      (\<lambda>b h. h\<lparr>piano_solved := b\<rparr>))
         (and_then (restore_player data)
         (and_then (assign (bind_res (subscript data ''phantom'') Phantom_kwargs)
                      (\<lambda>f h. h\<lparr>phantom := f\<rparr>))
                   (\<lambda>h. case subscript data ''rooms'' of
                          Inl e \<Rightarrow> raise e h
                        | Inr (JObj kvs) \<Rightarrow> restore_rooms kvs h
                        | Inr _ \<Rightarrow> raise AttributeError h)))))
          g)"

text \<open>\<open>_record_action\<close>: push, and drop the oldest snapshot beyond ten.\<close>

definition record_action :: "game \<Rightarrow> game" where
  "record_action g =
     (let h = history g @ [snapshot g]
      in g\<lparr>history := (if length h > 10 then tl h else h)\<rparr>)"

text \<open>
  \<open>_process_text\<close>: at sanity 60 or below, each word that is a key of \<open>swaps\<close> draws one
  random number (only such a word does: \<open>and\<close> is lazy) and is replaced when the number
  is below 0.4.
\<close>

definition swaps :: "(string \<times> string) list" where
  "swaps = [(''dust'', ''ash''), (''quiet'', ''whispering''), (''shadows'', ''monsters''),
            (''smell'', ''stench''), (''old'', ''ancient''), (''piano'', ''coffin''),
            (''battery'', ''lifeline''), (''light'', ''hope''), (''safe'', ''vault'')]"

fun process_words :: "string list \<Rightarrow> rng \<Rightarrow> string list \<times> rng" where
  "process_words [] r = ([], r)"
| "process_words (w # ws) r =
     (case map_of swaps (lower (strip_chars ''.,!?:'' w)) of
        None \<Rightarrow> (case process_words ws r of (out, r') \<Rightarrow> (w # out, r'))
      | Some sw \<Rightarrow>
          (case next_random r of
             (u, r1) \<Rightarrow>
               (case process_words ws r1 of
                  (out, r') \<Rightarrow>
                    (if u < 4 / 10
                     then (''[bold magenta]''
                             @ (if (case w of c # _ \<Rightarrow> isupper_char c | [] \<Rightarrow> False)
                                then capitalize sw else sw)
                             @ ''[/]'') # out
                     else w # out, r'))))"

text \<open>The text to show, and the generator after the draws.\<close>

definition process_text :: "string \<Rightarrow> game \<Rightarrow> string \<times> rng" where
  "process_text t g =
     (if sanity (player g) > THRESH_HALLUCINATE then (t, rand g)
      else (case process_words (split t) (rand g) of (out, r) \<Rightarrow> (join '' '' out, r)))"

subsection \<open>Enemy AI\<close>

text \<open>\<open>VisualFX.shake\<close> with the default intensity: three times \<open>random.randint(1, 2)\<close>.\<close>

definition shake :: "game \<Rightarrow> game" where
  "shake g = g\<lparr>rand := snd (randint 1 2 (snd (randint 1 2 (snd (randint 1 2 (rand g))))))\<rparr>"

text \<open>
  \<open>random.choice(list(room.exits.values()))\<close> for the phantom, in the room
  \<open>self._room(self.phantom.room_id)\<close>, when that room has an exit.
\<close>

definition phantom_relocate :: "game \<Rightarrow> game" where
  "phantom_relocate g =
     (case room_of g (Some (ph_room_id (phantom g))) of
        None \<Rightarrow> raise KeyError g
      | Some r \<Rightarrow>
          (if exits r \<noteq> [] then
             (case choice (map snd (exits r)) (rand g) of
                (dest, r') \<Rightarrow> g\<lparr>phantom := (phantom g)\<lparr>ph_room_id := dest\<rparr>, rand := r'\<rparr>)
           else g))"

definition phantom_attack :: "game \<Rightarrow> game" where
  "phantom_attack g =
     (let g1 = print (Panel [] ''[bold red]THE PHANTOM SCREAMS![/] [italic]Your mind begins to fracture![/]'')
                 (shake g);
          dmg = py_int (DRAIN_PHANTOM_ATTACK * diff_mult g1)
      in g1\<lparr>player := (player g1)\<lparr>sanity := sanity (player g1) - dmg\<rparr>\<rparr>)"

definition phantom_move :: "game \<Rightarrow> game" where
  "phantom_move g =
     (case next_random (rand g) of
        (u, r') \<Rightarrow>
          (if u < CHANCE_PHANTOM_MOVE then phantom_relocate (g\<lparr>rand := r'\<rparr>)
           else g\<lparr>rand := r'\<rparr>))"

definition update_phantom :: "game \<Rightarrow> game" where
  "update_phantom g =
     (if stun_timer (phantom g) > turns (player g) then g
      else
        (let g1 = (if turns (player g) > 8 \<and> \<not> active (phantom g) \<and> tutorial_done (player g)
                   then print (Line ''[bold magenta]Something has awakened in the house...[/]'')
                          (g\<lparr>phantom := (phantom g)\<lparr>active := True\<rparr>\<rparr>)
                   else g)
         in if \<not> active (phantom g1) then g1
            else phantom_move
                   (if ph_room_id (phantom g1) = room_id (player g1) then phantom_attack g1
                    else g1)))"

subsection \<open>Action handlers\<close>

definition mute :: "string \<Rightarrow> game \<Rightarrow> game" where
  "mute _ g = print (Line ''[yellow]Audio Muted.[/]'') (g\<lparr>sound_enabled := False\<rparr>)"

definition unmute :: "string \<Rightarrow> game \<Rightarrow> game" where
  "unmute _ g = print (Line ''[green]Audio Enabled.[/]'') (g\<lparr>sound_enabled := True\<rparr>)"

definition flash :: "string \<Rightarrow> game \<Rightarrow> game" where
  "flash _ g0 =
     (let g = record_action g0 in
      if \<not> has g ''flashlight'' then print (Line ''[red]No flashlight![/]'') g
      else
        (let cost = py_int (BAT_COST_FLASH * diff_mult g) in
         if battery (player g) < cost then print (Line ''[red]Battery too low![/]'') g
         else
           (let g1 = print (Line (''[bold white]You unleash a blinding burst! (Battery -''
                                    @ str_int cost @ '')[/]''))
                       (g\<lparr>player := (player g)\<lparr>battery := battery (player g) - cost\<rparr>\<rparr>)
            in if ph_room_id (phantom g1) = room_id (player g1) then
                 (let g2 = print (Line ''[bold green]The Phantom shrieks and flees![/]'') g1
                  in phantom_relocate
                       (g2\<lparr>phantom := (phantom g2)\<lparr>stun_timer := turns (player g2) + 3\<rparr>\<rparr>))
               else print (Line ''[italic]Nothing but dust moths.[/]'') g1)))"

definition listen :: "string \<Rightarrow> game \<Rightarrow> game" where
  "listen _ g0 =
     (let g = print (Line ''[italic]Listening...[/]'') (record_action g0) in
      case room_of g None of
        None \<Rightarrow> raise KeyError g
      | Some cur \<Rightarrow>
          (if ph_room_id (phantom g) = rid cur then print (Line ''[bold red]IT IS HERE![/]'') g
           else if list_ex (\<lambda>e. ph_room_id (phantom g) = snd e) (exits cur)
           then print (Line ''[bold yellow]You hear shuffling nearby.[/]'') g
           else print (Line ''[dim]Silence.[/]'') g))"

text \<open>\<open>_update_status\<close>: the sanity drain comes before the room is looked up.\<close>

definition update_status :: "game \<Rightarrow> game" where
  "update_status g =
     (let mult = diff_mult g;
          g1 = g\<lparr>player := (player g)\<lparr>sanity := sanity (player g) - py_int (DRAIN_MOVE * mult)\<rparr>\<rparr>
      in case room_of g1 None of
           None \<Rightarrow> raise KeyError g1
         | Some r \<Rightarrow>
             (if dark r \<and> has g1 ''flashlight'' then
                g1\<lparr>player := (player g1)
                      \<lparr>battery := max 0 (battery (player g1) - py_int (BAT_DRAIN_DARK * mult))\<rparr>\<rparr>
              else if has g1 ''flashlight'' then
                g1\<lparr>player := (player g1)
                      \<lparr>battery := max 0 (battery (player g1) - py_int (BAT_DRAIN_NORMAL * mult))\<rparr>\<rparr>
              else g1))"

text \<open>The light check that ends \<open>move\<close>; \<open>dest\<close> is the room entered.\<close>

definition light_check :: "room \<Rightarrow> game \<Rightarrow> game" where
  "light_check dest g =
     (if dark dest then
        (if \<not> has g ''flashlight'' then
           (let g1 = print (Line ''[bold red]Darkness consumes you.[/]'') g
            in g1\<lparr>player := (player g1)\<lparr>alive := False\<rparr>\<rparr>)
         else if battery (player g) \<le> 0 then
           (let g1 = print (Line ''[bold red]Flashlight dead. You die.[/]'') g
            in g1\<lparr>player := (player g1)\<lparr>alive := False\<rparr>\<rparr>)
         else g)
      else g)"

text \<open>The part of \<open>move\<close> after the lock: enter, drain, phantom, light.\<close>

definition enter :: "room \<Rightarrow> game \<Rightarrow> game" where
  "enter dest g =
     and_then update_status (and_then update_phantom (light_check dest))
       (g\<lparr>player := (player g)\<lparr>room_id := rid dest,
                                visited := finsert (rid dest) (visited (player g)),
                                turns := turns (player g) + 1\<rparr>\<rparr>)"

definition move :: "string \<Rightarrow> game \<Rightarrow> game" where
  "move direction g0 =
     (let g = record_action g0 in
      case room_of g None of
        None \<Rightarrow> raise KeyError g
      | Some cur \<Rightarrow>
          (case map_of (exits cur) direction of
             None \<Rightarrow> print (Line (''[yellow]Can'' @ apos @ ''t go '' @ apos @ direction @ apos @ ''.[/]'')) g
           | Some target \<Rightarrow>
               (case room_of g (Some target) of
                  None \<Rightarrow> raise KeyError g
                | Some dest \<Rightarrow>
                    (if locked dest then
                       (if (case key_id dest of Some (c # cs) \<Rightarrow> has g (c # cs) | _ \<Rightarrow> False) then
                          (let g1 = upd_room (room_key g (Some target)) (\<lambda>r. r\<lparr>locked := False\<rparr>)
                                      (print (Line (''[green]Unlocked '' @ rname dest @ ''.[/]'')) g);
                               g2 = (if rid dest = ''foyer''
                                     then g1\<lparr>player := (player g1)\<lparr>tutorial_done := True\<rparr>\<rparr>
                                     else g1)
                           in enter dest g2)
                        else print (Line ''[red]Locked.[/]'') g)
                     else enter dest g))))"

definition take :: "string \<Rightarrow> game \<Rightarrow> game" where
  "take target0 g0 =
     (let g = record_action g0;
          target = replace (CHR ''u'') ''p '' [] target0 in
      case room_of g None of
        None \<Rightarrow> raise KeyError g
      | Some room \<Rightarrow>
          (case find (\<lambda>i. lower (iname i) = target \<or> iid i = target) (items room) of
             None \<Rightarrow> print (Line (''[yellow]Can'' @ apos @ ''t take '' @ apos @ target @ apos @ ''.[/]'')) g
           | Some it \<Rightarrow>
               (if \<not> takeable it
                then print (Line (''[yellow]Can'' @ apos @ ''t take '' @ apos @ target @ apos @ ''.[/]'')) g
                else if length (inventory (player g)) \<ge> MAX_INV_SLOTS
                then print (Line ''[red]Inventory full![/]'') g
                else
                  (let g1 = upd_room (room_key g None) (\<lambda>r. r\<lparr>items := remove1 it (items r)\<rparr>) g;
                       g2 = g1\<lparr>player := (player g1)\<lparr>inventory := inventory (player g1) @ [it]\<rparr>\<rparr>
                   in print (Line (''[green]Taken: '' @ iname it @ ''[/]'')) g2))))"

definition use :: "string \<Rightarrow> game \<Rightarrow> game" where
  "use target g0 =
     (let g = record_action g0 in
      if str_in ''battery'' target \<or> str_in ''batteries'' target then
        (case find (\<lambda>i. iid i = ''batteries'') (inventory (player g)) of
           Some bat \<Rightarrow>
             (let g1 = g\<lparr>player := (player g)
                           \<lparr>inventory := remove1 bat (inventory (player g)),
                            battery := min 100 (battery (player g) + BATTERY_RESTORE)\<rparr>\<rparr>
              in print (Line (''[green]Recharged. Battery: '' @ str_int (battery (player g1))
                               @ ''%[/]'')) g1)
         | None \<Rightarrow> print (Line ''[red]No batteries.[/]'') g)
      else if str_in ''amulet'' target then
        (case find (\<lambda>i. iid i = ''amulet'') (inventory (player g)) of
           Some amu \<Rightarrow>
             print (Line ''[green]Sanity restored.[/]'')
               (g\<lparr>player := (player g)
                     \<lparr>inventory := remove1 amu (inventory (player g)),
                      sanity := min 100 (sanity (player g) + SANITY_RESTORE_AMULET)\<rparr>\<rparr>)
         | None \<Rightarrow> print (Line ''[red]No amulet.[/]'') g)
      else print (Line (''[yellow]Can'' @ apos @ ''t use '' @ apos @ target @ apos @ '' directly.[/]'')) g)"

text \<open>
  \<open>input(prompt)\<close> inside a handler: the next line of standard input; at its end
  \<open>EOFError\<close>, which no handler catches.
\<close>

definition unlock :: "string \<Rightarrow> game \<Rightarrow> game" where
  "unlock target g0 =
     (let g = record_action g0 in
      if str_in ''safe'' target \<and> room_id (player g) = ''library'' then
        (case stdin g of
           [] \<Rightarrow> raise EOFError g
         | code # rest \<Rightarrow>
             (let g1 = g\<lparr>stdin := rest\<rparr> in
              if code = safe_code g1 then
                (let g2 = print (Line ''[green]Safe opens![/]'') g1 in
                 case room_of g2 None of
                   None \<Rightarrow> raise KeyError g2
                 | Some _ \<Rightarrow>
                     upd_room (room_key g2 None)
                       (\<lambda>r. r\<lparr>items := items r @
                               [\<lparr>iid = ''silver_key'', iname = ''Silver Key'', idesc = ''Small key.'',
                                 takeable = True, interactable = False, hidden_text = None,
                                 ivalue = 0\<rparr>]\<rparr>) g2)
              else
                (let g2 = print (Line ''[red]Wrong.[/]'') g1
                 in g2\<lparr>player := (player g2)
                         \<lparr>sanity := sanity (player g2) - py_int (DRAIN_WRONG_CODE * diff_mult g2)\<rparr>\<rparr>)))
      else print (Line ''[yellow]Nothing to unlock.[/]'') g)"

definition upper :: "string \<Rightarrow> string" where
  "upper s = map upper_char s"

definition play_piano :: "string \<Rightarrow> game \<Rightarrow> game" where
  "play_piano target g0 =
     (let g = record_action g0 in
      if str_in ''piano'' target \<and> room_id (player g) = ''library'' then
        (if piano_solved g then print (Line ''Already solved.'') g
         else
           (case stdin g of
              [] \<Rightarrow> raise EOFError g
            | l # rest \<Rightarrow>
                (let g1 = g\<lparr>stdin := rest\<rparr>;
                     notes = upper (strip l) in
                 if notes = ''DAD'' \<or> notes = ''D-A-D'' then
                   (let g2 = print (Line ''[cyan]A hidden door slides open to the East![/]'') g1 in
                    case map_of (rooms g2) ''library'' of
                      None \<Rightarrow> raise KeyError g2
                    | Some _ \<Rightarrow>
                        (upd_room ''library'' (\<lambda>r. r\<lparr>exits := dict_set ''east'' ''study'' (exits r)\<rparr>) g2)
                          \<lparr>piano_solved := True\<rparr>)
                 else
                   (let g2 = print (Line ''[red]Discordant noise![/]'') g1
                    in g2\<lparr>player := (player g2)\<lparr>sanity := sanity (player g2) - 2\<rparr>\<rparr>))))
      else print (Line ''[yellow]No piano.[/]'') g)"

text \<open>
  \<open>look\<close>. The journal test asks whether the hidden text is in the journal; the entry
  appended is the item's name, a colon and the hidden text.
\<close>

definition look :: "string \<Rightarrow> game \<Rightarrow> game" where
  "look target g =
     (if target = [] \<or> target = ''room'' \<or> target = ''around'' then g
      else
        (case room_of g None of
           None \<Rightarrow> raise KeyError g
         | Some r \<Rightarrow>
             (case find (\<lambda>i. lower (iname i) = target \<or> iid i = target)
                     (inventory (player g) @ items r) of
                None \<Rightarrow> print (Line (''[yellow]Can'' @ apos @ ''t see '' @ apos @ target @ apos @ ''.[/]'')) g
              | Some it \<Rightarrow>
                  (case process_text (idesc it) g of
                     (d, r') \<Rightarrow>
                       (let g2 = print (Panel (iname it) d) (g\<lparr>rand := r'\<rparr>) in
                        case (if interactable it then hidden_text it else None) of
                          Some (c # cs) \<Rightarrow>
                            (let g3 = print (Line (''[italic] > '' @ (c # cs) @ ''[/]'')) g2 in
                             if c # cs \<notin> set (journal (player g3)) then
                               g3\<lparr>player := (player g3)
                                     \<lparr>journal := journal (player g3)
                                                  @ [iname it @ '': '' @ (c # cs)]\<rparr>\<rparr>
                             else g3)
                        | _ \<Rightarrow> g2)))))"

text \<open>\<open>undo\<close>. (The printed line starts with a rewind sign, left out here.)\<close>

definition undo :: "string \<Rightarrow> game \<Rightarrow> game" where
  "undo _ g =
     (if history g = [] then print (Line ''[red]Nothing to undo.[/]'') g
      else
        and_then (restore (last (history g))) (print (Line ''[bold yellow] Time Rewind.[/]''))
          (g\<lparr>history := butlast (history g)\<rparr>))"

definition hint :: "string \<Rightarrow> game \<Rightarrow> game" where
  "hint _ g0 =
     (let g = record_action g0;
          cost = py_int (DRAIN_HINT * diff_mult g);
          g1 = g\<lparr>player := (player g)\<lparr>sanity := sanity (player g) - cost\<rparr>\<rparr>;
          r = room_id (player g1) in
      if r = ''gate'' then print (Panel ''HINT'' ''Unlock the North door with the key.'') g1
      else if r = ''foyer'' then
        (case map_of (rooms g1) ''garden'' of
           None \<Rightarrow> raise KeyError g1
         | Some garden \<Rightarrow>
             print (Panel ''HINT'' (if locked garden then ''Golden Key is in the Basement.''
                                    else ''Explore.'')) g1)
      else if r = ''kitchen'' \<and> \<not> list_ex (\<lambda>i. iid i = ''note'') (inventory (player g1))
      then print (Panel ''HINT'' ''Take the note.'') g1
      else print (Panel ''HINT'' ''Explore.'') g1)"

text \<open>\<open>drop\<close>: the item leaves the inventory before the room is looked up.\<close>

definition drop_item :: "string \<Rightarrow> game \<Rightarrow> game" where
  "drop_item target g0 =
     (let g = record_action g0 in
      case find (\<lambda>i. lower (iname i) = target) (inventory (player g)) of
        Some found \<Rightarrow>
          (let g1 = g\<lparr>player := (player g)\<lparr>inventory := remove1 found (inventory (player g))\<rparr>\<rparr> in
           case room_of g1 None of
             None \<Rightarrow> raise KeyError g1
           | Some _ \<Rightarrow>
               print (Line (''[yellow]Dropped: '' @ iname found @ ''[/]''))
                 (upd_room (room_key g1 None) (\<lambda>r. r\<lparr>items := items r @ [found]\<rparr>) g1))
      | None \<Rightarrow> print (Line ''[red]Not carrying that.[/]'') g)"

definition show_inv :: "string \<Rightarrow> game \<Rightarrow> game" where
  "show_inv _ g = print (Table ''Inventory'' (map (\<lambda>i. (iname i, idesc i)) (inventory (player g)))) g"

definition show_journal :: "string \<Rightarrow> game \<Rightarrow> game" where
  "show_journal _ g =
     print (Panel ''Journal'' (if journal (player g) \<noteq> []
                               then join [CHR 0x0A] (map (\<lambda>e. ''- '' @ e) (journal (player g)))
                               else ''Empty.'')) g"

text \<open>The map is drawn from the player's room and the visited rooms; the drawing is left out.\<close>

definition show_map :: "string \<Rightarrow> game \<Rightarrow> game" where
  "show_map _ g = print (Panel ''Map'' []) g"

definition show_help :: "string \<Rightarrow> game \<Rightarrow> game" where
  "show_help _ g =
     print (Table ''Commands'' [(''go'', ''Move''), (''take'', ''Pickup''), (''use'', ''Action''),
                                (''flash'', ''Stun Phantom''), (''listen'', ''Detect Danger'')]) g"

text \<open>\<open>save.json\<close> is written with the snapshot; it is read only if it exists.\<close>

definition save_state :: "string \<Rightarrow> game \<Rightarrow> game" where
  "save_state _ g = print (Line ''[green]Saved.[/]'') (g\<lparr>save_json := Some (snapshot g)\<rparr>)"

definition load_state :: "string \<Rightarrow> game \<Rightarrow> game" where
  "load_state _ g =
     (case save_json g of
        Some t \<Rightarrow> and_then (restore t) (print (Line ''[green]Loaded.[/]'')) g
      | None \<Rightarrow> g)"

subsection \<open>Command routing\<close>

text \<open>\<open>self.cmds\<close>, in the order of the dictionary display.\<close>

definition cmds :: "(string \<times> (string \<Rightarrow> game \<Rightarrow> game)) list" where
  "cmds =
     [(''go'', move), (''move'', move), (''walk'', move),
      (''look'', look), (''inspect'', look), (''read'', look),
      (''take'', take), (''get'', take), (''grab'', take),
      (''drop'', drop_item), (''use'', use),
      (''inv'', show_inv), (''i'', show_inv), (''inventory'', show_inv),
      (''map'', show_map), (''journal'', show_journal), (''j'', show_journal),
      (''save'', save_state), (''load'', load_state),
      (''help'', show_help), (''unlock'', unlock), (''play'', play_piano),
      (''undo'', undo), (''hint'', hint),
      (''listen'', listen), (''flash'', flash),
      (''mute'', mute), (''unmute'', unmute)]"

text \<open>
  \<open>process.extractOne(query, choices)\<close> of the library thefuzz, which is not part of the
  repository: it scores the query against every choice on a scale from 0 to 100 and
  returns the first choice with the highest score, with that score. The scorer is a
  parameter of the model.
\<close>

fun best_of :: "(string \<Rightarrow> int) \<Rightarrow> string \<times> int \<Rightarrow> string list \<Rightarrow> string \<times> int" where
  "best_of sc b [] = b"
| "best_of sc b (k # ks) = (if sc k > snd b then best_of sc (k, sc k) ks else best_of sc b ks)"

definition extractOne :: "(string \<Rightarrow> string \<Rightarrow> int) \<Rightarrow> string \<Rightarrow> string list \<Rightarrow> (string \<times> int) option" where
  "extractOne scorer query choices =
     (case choices of
        [] \<Rightarrow> None
      | k # ks \<Rightarrow> Some (best_of (scorer query) (k, scorer query k) ks))"

text \<open>
  The dispatch of \<open>start\<close>, from \<open>parts = inp.split()\<close> to the end of the \<open>if\<close>; \<open>inp\<close> is
  stripped, lower case and not empty.
\<close>

definition dispatch :: "(string \<Rightarrow> string \<Rightarrow> int) \<Rightarrow> string \<Rightarrow> game \<Rightarrow> game" where
  "dispatch scorer inp g =
     (case split inp of
        [] \<Rightarrow> raise KeyError g
      | cmd # args \<Rightarrow>
          (let arg = join '' '' args in
           case map_of cmds cmd of
             Some handler \<Rightarrow> handler arg g
           | None \<Rightarrow>
               (case extractOne scorer cmd (map fst cmds) of
                  None \<Rightarrow> raise TypeError g
                | Some (best, score) \<Rightarrow>
                    (if score \<ge> FUZZY_CONFIDENCE then
                       (let g1 = print (Line (''[dim italic]Did you mean '' @ apos @ best @ apos @ ''?[/]'')) g in
                        case map_of cmds best of
                          Some handler \<Rightarrow> handler arg g1
                        | None \<Rightarrow> raise KeyError g1)
                     else print (Line ''[dim]Unknown command.[/]'') g))))"

subsection \<open>The main loop\<close>

text \<open>\<open>_render_ui\<close> and the room panel print and, through \<open>_process_text\<close>, draw random numbers.\<close>

definition render_ui :: "game \<Rightarrow> game" where
  "render_ui g =
     print (Panel [] (''Sanity: '' @ str_int (max 0 (sanity (player g))) @ ''% Battery: ''
                       @ str_int (max 0 (battery (player g))) @ ''%'')) g"

definition render_room :: "room \<Rightarrow> game \<Rightarrow> game" where
  "render_room r g =
     (if dark r \<and> \<not> has g ''flashlight''
      then print (Panel ''???'' ''[red]It is pitch black.[/]'') g
      else
        (case process_text (rdesc r) g of
           (d, r') \<Rightarrow>
             print (Panel (rname r)
                      (d @ (if items r \<noteq> []
                            then ''Items: '' @ join '', '' (map (\<lambda>i. ''[yellow]'' @ iname i @ ''[/]'') (items r))
                            else [])
                         @ ''Exits: '' @ upper (join '', '' (map fst (exits r)))
                         @ (if \<not> tutorial_done (player g) \<and> rid r = ''gate''
                            then ''[bold white on blue] TUTORIAL: Type '' @ apos @ ''take iron key'' @ apos
                                   @ '' then '' @ apos @ ''go north'' @ apos @ ''. [/]''
                            else []))) (g\<lparr>rand := r'\<rparr>)))"

datatype flow = Continue | Break

text \<open>
  One pass through the body of the \<open>while\<close> of \<open>start\<close>. The end of standard input at the
  prompt is caught and leaves the loop; an exception out of a handler is not caught
  and leaves \<open>start\<close>.
\<close>

definition turn :: "(string \<Rightarrow> string \<Rightarrow> int) \<Rightarrow> game \<Rightarrow> flow \<times> game" where
  "turn scorer g =
     (if room_id (player g) = ''garden'' then (Break, g\<lparr>player := (player g)\<lparr>escaped := True\<rparr>\<rparr>)
      else
        (let g1 = render_ui g in
         case room_of g1 None of
           None \<Rightarrow> (Break, raise KeyError g1)
         | Some r \<Rightarrow>
             (let g2 = render_room r g1 in
              case stdin g2 of
                [] \<Rightarrow> (Break, g2)
              | l # rest \<Rightarrow>
                  (let g3 = g2\<lparr>stdin := rest\<rparr>;
                       inp = lower (strip l) in
                   if inp = [] then (Continue, g3)
                   else
                     (let g4 = dispatch scorer inp g3 in
                      if exc g4 \<noteq> None then (Break, g4)
                      else if sanity (player g4) \<le> 0 then
                        (let g5 = print (Line ''[red]Your mind shatters.[/]'') g4
                         in (Continue, g5\<lparr>player := (player g5)\<lparr>alive := False\<rparr>\<rparr>))
                      else (Continue, g4))))))"

text \<open>
  Two pieces of the loop body, named for the statements about it: the state when the
  prompt has read a line (the status bars and the room are drawn, the line is taken
  from the input), and the statements that follow the dispatch (an exception leaves
  the loop; \<open>if self.player.sanity <= 0\<close> ends the player).
\<close>

definition prompted :: "room \<Rightarrow> string list \<Rightarrow> game \<Rightarrow> game" where
  "prompted r rest g = (render_room r (render_ui g))\<lparr>stdin := rest\<rparr>"

definition sanity_check :: "game \<Rightarrow> flow \<times> game" where
  "sanity_check g4 =
     (if exc g4 \<noteq> None then (Break, g4)
      else if sanity (player g4) \<le> 0 then
        (let g5 = print (Line ''[red]Your mind shatters.[/]'') g4
         in (Continue, g5\<lparr>player := (player g5)\<lparr>alive := False\<rparr>\<rparr>))
      else (Continue, g4))"

text \<open>
  The \<open>while\<close> loop, returning the state at the head of every pass and the state it ends
  with. Every pass that continues has read a line, so the loop ends with the input
  (the termination proof follows the lemmas on the handlers).
\<close>

function main_loop :: "(string \<Rightarrow> string \<Rightarrow> int) \<Rightarrow> game \<Rightarrow> game list" where
  "main_loop scorer g =
     (if alive (player g) \<and> \<not> escaped (player g) then
        (case turn scorer g of
           (Break, g') \<Rightarrow> [g, g']
         | (Continue, g') \<Rightarrow> g # main_loop scorer g')
      else [g])"
  by pat_completeness auto

text \<open>\<open>_select_difficulty\<close>: asks until the answer is 1, 2 or 3.\<close>

fun select_difficulty :: "string list \<Rightarrow> (string \<times> string list) option" where
  "select_difficulty [] = None"
| "select_difficulty (l # ls) =
     (let c = strip l in
      if c = ''1'' then Some (''story'', ls)
      else if c = ''2'' then Some (''normal'', ls)
      else if c = ''3'' then Some (''hard'', ls)
      else select_difficulty ls)"

definition game_over :: "game \<Rightarrow> game" where
  "game_over g =
     (if escaped (player g) then
        print (Panel (if has g ''sapphire'' then ''WEALTHY SURVIVOR'' else ''ESCAPED'')
                 (''Score: '' @ str_int (sanity (player g) * 10 - turns (player g) * 2
                                        + sum_list (map ivalue (inventory (player g)))))) g
      else print (Panel [] ''DIED'') g)"

definition start :: "(string \<Rightarrow> string \<Rightarrow> int) \<Rightarrow> game \<Rightarrow> game list" where
  "start scorer g =
     (case select_difficulty (stdin g) of
        None \<Rightarrow> [raise EOFError (g\<lparr>stdin := []\<rparr>)]
      | Some (d, rest) \<Rightarrow>
          (let gs = main_loop scorer (g\<lparr>player := (player g)\<lparr>difficulty := d\<rparr>, stdin := rest\<rparr>)
           in if exc (last gs) = None then butlast gs @ [game_over (last gs)] else gs))"

subsection \<open>A new game\<close>

definition mk_item :: "string \<Rightarrow> string \<Rightarrow> string \<Rightarrow> item" where
  "mk_item i n d = \<lparr>iid = i, iname = n, idesc = d, takeable = True, interactable = False,
                    hidden_text = None, ivalue = 0\<rparr>"

definition mk_room :: "string \<Rightarrow> string \<Rightarrow> string \<Rightarrow> (string \<times> string) list \<Rightarrow> item list \<Rightarrow> room" where
  "mk_room i n d ex its = \<lparr>rid = i, rname = n, rdesc = d, exits = ex, items = its, dark = False,
                           locked = False, key_id = None\<rparr>"

definition init_world :: "string \<Rightarrow> (string \<times> room) list" where
  "init_world code =
     (let flashlight = mk_item ''flashlight'' ''Flashlight'' ''Rugged and heavy.'';
          note = (mk_item ''note'' ''Crumpled Note'' ''Hastily scrawled numbers.'')
                   \<lparr>interactable := True, hidden_text := Some (''Code: '' @ code)\<rparr>;
          golden_key = (mk_item ''golden_key'' ''Golden Key'' ''Heavy gold key.'')\<lparr>ivalue := 50\<rparr>;
          safe = (mk_item ''safe'' ''Safe'' ''Needs a 3-digit code.'')\<lparr>takeable := False\<rparr>;
          piano = (mk_item ''piano'' ''Grand Piano'' ''Elegant keys covered in dust.'')\<lparr>takeable := False\<rparr>;
          amulet = mk_item ''amulet'' ''Jade Amulet'' ''Warm to the touch.'';
          batteries = (mk_item ''batteries'' ''Spare Batteries'' ''Standard voltage.'')\<lparr>ivalue := 10\<rparr>;
          sapphire = (mk_item ''sapphire'' ''Star Sapphire'' ''A brilliant gem worth a fortune.'')\<lparr>ivalue := 500\<rparr>;
          gate_key = mk_item ''gate_key'' ''Iron Key'' ''Rusty but solid.''
      in [(''gate'', mk_room ''gate'' ''Manor Gate''
                       ''Rain lashes down. A massive gate blocks North. An old [yellow]Iron Key[/] sits in the mud.''
                       [(''north'', ''foyer'')] [gate_key]),
          (''foyer'', (mk_room ''foyer'' ''Foyer'' ''Grand entrance. Dust everywhere.''
                         [(''north'', ''library''), (''east'', ''kitchen''), (''west'', ''bedroom''),
                          (''south'', ''gate'')] [flashlight])
                        \<lparr>locked := True, key_id := Some ''gate_key''\<rparr>),
          (''kitchen'', mk_room ''kitchen'' ''Kitchen'' ''Smells of rot.''
                          [(''west'', ''foyer''), (''down'', ''basement'')] [note, batteries]),
          (''library'', mk_room ''library'' ''Library'' ''Quiet rows of books.''
                          [(''south'', ''foyer''), (''up'', ''attic'')] [safe, piano]),
          (''bedroom'', mk_room ''bedroom'' ''Master Bedroom'' ''Moonlight hits the mirror.''
                          [(''east'', ''foyer'')] [amulet]),
          (''basement'', (mk_room ''basement'' ''Basement'' ''Damp and cold.''
                            [(''up'', ''kitchen'')] [golden_key])
                           \<lparr>dark := True, locked := True, key_id := Some ''silver_key''\<rparr>),
          (''attic'', mk_room ''attic'' ''Attic'' ''Cobwebs and memories.'' [(''down'', ''library'')] []),
          (''garden'', (mk_room ''garden'' ''Freedom'' ''Fresh air!'' [(''north'', ''foyer'')] [])
                         \<lparr>locked := True, key_id := Some ''golden_key''\<rparr>),
          (''study'', mk_room ''study'' ''Secret Study'' ''A hidden room.''
                        [(''west'', ''library'')] [sapphire])])"

text \<open>
  \<open>Game.__init__\<close>. \<open>mt\<close> is \<open>random.seed\<close>: the generator a seed string starts. Without
  a seed, one is drawn from the generator as the process found it (\<open>g0\<close>). The last
  three arguments are the process: its standard input, the file \<open>save.json\<close> as it is
  on disk, and \<open>SoundEngine.enabled\<close>.
\<close>

definition new_game :: "(string \<Rightarrow> rng) \<Rightarrow> rng \<Rightarrow> string option \<Rightarrow> string list \<Rightarrow> jtext option \<Rightarrow> game" where
  "new_game mt g0 seed_arg inp file =
     (let sd = (case seed_arg of None \<Rightarrow> str_int (fst (randint 1000 9999 g0)) | Some s \<Rightarrow> s);
          code = randint 100 999 (mt sd)
      in \<lparr>seed = sd,
          rooms = init_world (str_int (fst code)),
          player = \<lparr>room_id = ''gate'', inventory = [], visited = {|''gate''|}, journal = [],
                    sanity = STARTING_SANITY, battery = STARTING_BATTERY, turns = 0, alive = True,
                    escaped = False, tutorial_done = False, difficulty = ''normal''\<rparr>,
          phantom = \<lparr>ph_room_id = ''attic'', active = False, stun_timer = 0\<rparr>,
          safe_code = str_int (fst code),
          piano_solved = False,
          history = [],
          rand = snd code,
          stdin = inp,
          save_json = file,
          sound_enabled = True,
          console = [],
          exc = None\<rparr>)"

subsection \<open>What never changes in a room\<close>

text \<open>
  No statement of the source assigns to a room's \<open>id\<close>, \<open>name\<close>, \<open>desc\<close>, \<open>dark\<close> or
  \<open>key_id\<close>, or adds or removes a key of \<open>self.rooms\<close>. The skeleton of a game is the
  list of its room keys, each with these five fields.
\<close>

definition static :: "room \<Rightarrow> string \<times> string \<times> string \<times> bool \<times> string option" where
  "static r = (rid r, rname r, rdesc r, dark r, key_id r)"

definition skeleton :: "game \<Rightarrow> (string \<times> string \<times> string \<times> string \<times> bool \<times> string option) list" where
  "skeleton g = map (\<lambda>kr. (fst kr, static (snd kr))) (rooms g)"

subsection \<open>Example states\<close>

text \<open>
  A generator that always answers \<open>u\<close> to \<open>random.random()\<close> and \<open>k\<close> to
  \<open>_randbelow\<close>, and the new game of seed \<open>"1234"\<close> on it, with no input and no save
  file.
\<close>

primcorec const_rng :: "real \<Rightarrow> nat \<Rightarrow> rng" where
  "const_rng u k = Rng (u, const_rng u k) (\<lambda>n. (k, const_rng u k))"

definition demo_game :: game where
  "demo_game = new_game (\<lambda>s. const_rng 0 0) (const_rng 0 0) (Some ''1234'') [] None"

text \<open>
  Turn 12 in the library, the tutorial done, the phantom awake in the same room, with a
  given stun expiry and difficulty.
\<close>

definition tick_example :: "int \<Rightarrow> string \<Rightarrow> game" where
  "tick_example stun diff =
     demo_game\<lparr>player := (player demo_game)\<lparr>room_id := ''library'', turns := 12,
                                              tutorial_done := True, difficulty := diff\<rparr>,
               phantom := \<lparr>ph_room_id = ''library'', active = True, stun_timer = stun\<rparr>\<rparr>"

text \<open>The note of the kitchen, and a game with the player in the kitchen at turn 2.\<close>

definition note_item :: "string \<Rightarrow> item" where
  "note_item c = (mk_item ''note'' ''Crumpled Note'' ''Hastily scrawled numbers.'')
                   \<lparr>interactable := True, hidden_text := Some (''Code: '' @ c)\<rparr>"

definition kitchen_example :: game where
  "kitchen_example =
     demo_game\<lparr>player := (player demo_game)\<lparr>room_id := ''kitchen'', turns := 2, sanity := 98,
        tutorial_done := True, visited := {|''gate'', ''foyer'', ''kitchen''|}\<rparr>\<rparr>"

text \<open>The gate room of a new game, and the new game with one line on its input.\<close>

definition the_gate :: room where
  "the_gate = mk_room ''gate'' ''Manor Gate''
                ''Rain lashes down. A massive gate blocks North. An old [yellow]Iron Key[/] sits in the mud.''
                [(''north'', ''foyer'')] [mk_item ''gate_key'' ''Iron Key'' ''Rusty but solid.'']"

definition typed :: "string \<Rightarrow> game" where
  "typed l = demo_game\<lparr>stdin := [l]\<rparr>"

text \<open>A scorer that gives 86 to \<open>take\<close> for the query \<open>tke\<close>, and 0 otherwise.\<close>

definition typo_scorer :: "string \<Rightarrow> string \<Rightarrow> int" where
  "typo_scorer q k = (if q = ''tke'' \<and> k = ''take'' then 86 else 0)"

text \<open>A room with the three fields a snapshot holds taken from another room.\<close>

definition restored_room :: "room \<Rightarrow> room \<Rightarrow> room" where
  "restored_room r c = c\<lparr>locked := locked r, items := items r, exits := exits r\<rparr>"

text \<open>The handlers that start with \<open>self._record_action()\<close>.\<close>

definition mutating :: "(string \<Rightarrow> game \<Rightarrow> game) list" where
  "mutating = [move, take, drop_item, use, unlock, play_piano, flash, hint, listen]"

text \<open>A game with the player in the library and the line \<open>dad\<close> waiting on the input.\<close>

definition library_example :: game where
  "library_example =
     demo_game\<lparr>player := (player demo_game)\<lparr>room_id := ''library'', turns := 2, sanity := 98,
        tutorial_done := True, visited := {|''gate'', ''foyer'', ''library''|}\<rparr>,
        stdin := [''dad'']\<rparr>"

text \<open>A save file that holds a seed and a safe code and nothing else.\<close>

definition torn_save :: jtext where
  "torn_save = Encodes (JObj [(''seed'', JStr ''9999''), (''safe_code'', JStr ''000'')])"

text \<open>
  The spec's \<open>round\<close>, as Python rounds: to the nearest integer, a half to the even
  neighbour.
\<close>

definition py_round :: "real \<Rightarrow> int" where
  "py_round x =
     (let f = \<lfloor>x\<rfloor>; d = x - of_int f
      in if d < 1 / 2 then f else if d > 1 / 2 then f + 1 else if even f then f else f + 1)"

section \<open>Properties\<close>

subsection \<open>What the handlers leave alone\<close>

text \<open>
  For every function of the engine: the undo history, the save file, the skeleton and
  the pending input after it, in terms of the same before it.
\<close>

lemma skeleton_upd_room:
  "(\<And>r. static (f r) = static r) \<Longrightarrow> skeleton (upd_room k f g) = skeleton g"
  by (simp add: skeleton_def upd_room_def)

lemma static_simps [simp]:
  "static (r\<lparr>locked := b\<rparr>) = static r" "static (r\<lparr>items := its\<rparr>) = static r"
  "static (r\<lparr>exits := ex\<rparr>) = static r"
  by (simp_all add: static_def)

lemma skeleton_simps [simp]:
  "skeleton (g\<lparr>player := p\<rparr>) = skeleton g" "skeleton (g\<lparr>phantom := f\<rparr>) = skeleton g"
  "skeleton (g\<lparr>seed := s\<rparr>) = skeleton g" "skeleton (g\<lparr>safe_code := s\<rparr>) = skeleton g"
  "skeleton (g\<lparr>piano_solved := b\<rparr>) = skeleton g" "skeleton (g\<lparr>history := h\<rparr>) = skeleton g"
  "skeleton (g\<lparr>rand := r\<rparr>) = skeleton g" "skeleton (g\<lparr>stdin := i\<rparr>) = skeleton g"
  "skeleton (g\<lparr>save_json := j\<rparr>) = skeleton g" "skeleton (g\<lparr>sound_enabled := b\<rparr>) = skeleton g"
  "skeleton (g\<lparr>console := c\<rparr>) = skeleton g" "skeleton (g\<lparr>exc := e\<rparr>) = skeleton g"
  by (simp_all add: skeleton_def)

lemma print_frame [simp]:
  "history (print m g) = history g" "save_json (print m g) = save_json g"
  "skeleton (print m g) = skeleton g" "stdin (print m g) = stdin g"
  by (simp_all add: print_def)

lemma raise_frame [simp]:
  "history (raise e g) = history g" "save_json (raise e g) = save_json g"
  "skeleton (raise e g) = skeleton g" "stdin (raise e g) = stdin g"
  by (simp_all add: raise_def)

lemma upd_room_frame [simp]:
  "history (upd_room k f g) = history g" "save_json (upd_room k f g) = save_json g"
  "stdin (upd_room k f g) = stdin g"
  by (simp_all add: upd_room_def)

lemma record_action_frame [simp]:
  "save_json (record_action g) = save_json g"
  "skeleton (record_action g) = skeleton g" "stdin (record_action g) = stdin g"
  by (simp_all add: record_action_def Let_def)

lemma and_then_frame:
  "(\<And>g. history (f g) = history g) \<Longrightarrow> (\<And>g. history (h g) = history g) \<Longrightarrow> history (and_then f h g) = history g"
  "(\<And>g. save_json (f g) = save_json g) \<Longrightarrow> (\<And>g. save_json (h g) = save_json g) \<Longrightarrow> save_json (and_then f h g) = save_json g"
  "(\<And>g. skeleton (f g) = skeleton g) \<Longrightarrow> (\<And>g. skeleton (h g) = skeleton g) \<Longrightarrow> skeleton (and_then f h g) = skeleton g"
  "(\<And>g. stdin (f g) = stdin g) \<Longrightarrow> (\<And>g. stdin (h g) = stdin g) \<Longrightarrow> stdin (and_then f h g) = stdin g"
  by (simp_all add: and_then_def Let_def)

lemma assign_frame:
  "(\<And>x g. history (st x g) = history g) \<Longrightarrow> history (assign v st g) = history g"
  "(\<And>x g. save_json (st x g) = save_json g) \<Longrightarrow> save_json (assign v st g) = save_json g"
  "(\<And>x g. skeleton (st x g) = skeleton g) \<Longrightarrow> skeleton (assign v st g) = skeleton g"
  "(\<And>x g. stdin (st x g) = stdin g) \<Longrightarrow> stdin (assign v st g) = stdin g"
  by (simp_all add: assign_def split: sum.splits)

lemma restore_player_frame [simp]:
  "history (restore_player d g) = history g" "save_json (restore_player d g) = save_json g"
  "skeleton (restore_player d g) = skeleton g" "stdin (restore_player d g) = stdin g"
  by (simp_all add: restore_player_def split: sum.splits)

lemma restore_room_frame [simp]:
  "history (restore_room k d g) = history g" "save_json (restore_room k d g) = save_json g"
  "skeleton (restore_room k d g) = skeleton g" "stdin (restore_room k d g) = stdin g"
  by (simp_all add: restore_room_def and_then_frame assign_frame skeleton_upd_room)

lemma restore_rooms_frame [simp]:
  "history (restore_rooms kvs g) = history g" "save_json (restore_rooms kvs g) = save_json g"
  "skeleton (restore_rooms kvs g) = skeleton g" "stdin (restore_rooms kvs g) = stdin g"
  by (induction kvs arbitrary: g) (simp_all add: and_then_frame)

lemma restore_frame [simp]:
  "history (restore t g) = history g" "save_json (restore t g) = save_json g"
  "skeleton (restore t g) = skeleton g" "stdin (restore t g) = stdin g"
  by (simp_all add: restore_def and_then_frame assign_frame split: sum.splits json.splits)

lemma phantom_relocate_frame [simp]:
  "history (phantom_relocate g) = history g" "save_json (phantom_relocate g) = save_json g"
  "skeleton (phantom_relocate g) = skeleton g" "stdin (phantom_relocate g) = stdin g"
  by (simp_all add: phantom_relocate_def split: option.splits prod.splits)

lemma update_phantom_frame [simp]:
  "history (update_phantom g) = history g" "save_json (update_phantom g) = save_json g"
  "skeleton (update_phantom g) = skeleton g" "stdin (update_phantom g) = stdin g"
  by (simp_all add: update_phantom_def phantom_move_def phantom_attack_def shake_def Let_def split: prod.splits)

lemma update_status_frame [simp]:
  "history (update_status g) = history g" "save_json (update_status g) = save_json g"
  "skeleton (update_status g) = skeleton g" "stdin (update_status g) = stdin g"
  by (simp_all add: update_status_def Let_def split: option.splits)

lemma light_check_frame [simp]:
  "history (light_check d g) = history g" "save_json (light_check d g) = save_json g"
  "skeleton (light_check d g) = skeleton g" "stdin (light_check d g) = stdin g"
  by (simp_all add: light_check_def Let_def)

lemma enter_frame [simp]:
  "history (enter d g) = history g" "save_json (enter d g) = save_json g"
  "skeleton (enter d g) = skeleton g" "stdin (enter d g) = stdin g"
  by (simp_all add: enter_def and_then_frame)

lemma move_frame [simp]:
  "history (move a g) = history (record_action g)" "save_json (move a g) = save_json g"
  "skeleton (move a g) = skeleton g" "stdin (move a g) = stdin g"
  by (simp_all add: move_def Let_def skeleton_upd_room split: option.splits list.splits)

lemma flash_frame [simp]:
  "history (flash a g) = history (record_action g)" "save_json (flash a g) = save_json g"
  "skeleton (flash a g) = skeleton g" "stdin (flash a g) = stdin g"
  by (simp_all add: flash_def Let_def)

lemma listen_frame [simp]:
  "history (listen a g) = history (record_action g)" "save_json (listen a g) = save_json g"
  "skeleton (listen a g) = skeleton g" "stdin (listen a g) = stdin g"
  by (simp_all add: listen_def Let_def split: option.splits)

lemma take_frame [simp]:
  "history (take a g) = history (record_action g)" "save_json (take a g) = save_json g"
  "skeleton (take a g) = skeleton g" "stdin (take a g) = stdin g"
  by (simp_all add: take_def Let_def skeleton_upd_room split: option.splits)

lemma use_frame [simp]:
  "history (use a g) = history (record_action g)" "save_json (use a g) = save_json g"
  "skeleton (use a g) = skeleton g" "stdin (use a g) = stdin g"
  by (simp_all add: use_def Let_def split: option.splits)

lemma unlock_frame [simp]:
  "history (unlock a g) = history (record_action g)" "save_json (unlock a g) = save_json g"
  "skeleton (unlock a g) = skeleton g" "length (stdin (unlock a g)) \<le> length (stdin g)"
  by (simp_all add: unlock_def Let_def skeleton_upd_room split: option.splits list.splits)

lemma play_piano_frame [simp]:
  "history (play_piano a g) = history (record_action g)" "save_json (play_piano a g) = save_json g"
  "skeleton (play_piano a g) = skeleton g" "length (stdin (play_piano a g)) \<le> length (stdin g)"
  by (simp_all add: play_piano_def Let_def skeleton_upd_room split: option.splits list.splits)

lemma look_frame [simp]:
  "history (look a g) = history g" "save_json (look a g) = save_json g"
  "skeleton (look a g) = skeleton g" "stdin (look a g) = stdin g"
  by (simp_all add: look_def Let_def split: option.splits list.splits prod.splits)

lemma undo_frame [simp]:
  "save_json (undo a g) = save_json g"
  "skeleton (undo a g) = skeleton g" "stdin (undo a g) = stdin g"
  by (simp_all add: undo_def and_then_frame)

lemma hint_frame [simp]:
  "history (hint a g) = history (record_action g)" "save_json (hint a g) = save_json g"
  "skeleton (hint a g) = skeleton g" "stdin (hint a g) = stdin g"
  by (simp_all add: hint_def Let_def split: option.splits)

lemma drop_item_frame [simp]:
  "history (drop_item a g) = history (record_action g)" "save_json (drop_item a g) = save_json g"
  "skeleton (drop_item a g) = skeleton g" "stdin (drop_item a g) = stdin g"
  by (simp_all add: drop_item_def Let_def skeleton_upd_room split: option.splits)

lemma show_frame [simp]:
  "history (show_inv a g) = history g" "save_json (show_inv a g) = save_json g"
  "skeleton (show_inv a g) = skeleton g" "stdin (show_inv a g) = stdin g"
  "history (show_journal a g) = history g" "save_json (show_journal a g) = save_json g"
  "skeleton (show_journal a g) = skeleton g" "stdin (show_journal a g) = stdin g"
  "history (show_map a g) = history g" "save_json (show_map a g) = save_json g"
  "skeleton (show_map a g) = skeleton g" "stdin (show_map a g) = stdin g"
  "history (show_help a g) = history g" "save_json (show_help a g) = save_json g"
  "skeleton (show_help a g) = skeleton g" "stdin (show_help a g) = stdin g"
  "history (mute a g) = history g" "save_json (mute a g) = save_json g"
  "skeleton (mute a g) = skeleton g" "stdin (mute a g) = stdin g"
  "history (unmute a g) = history g" "save_json (unmute a g) = save_json g"
  "skeleton (unmute a g) = skeleton g" "stdin (unmute a g) = stdin g"
  by (simp_all add: show_inv_def show_journal_def show_map_def show_help_def mute_def unmute_def)

lemma save_state_frame [simp]:
  "history (save_state a g) = history g" 
  "skeleton (save_state a g) = skeleton g" "stdin (save_state a g) = stdin g"
  by (simp_all add: save_state_def)

lemma load_state_frame [simp]:
  "history (load_state a g) = history g" "save_json (load_state a g) = save_json g"
  "skeleton (load_state a g) = skeleton g" "stdin (load_state a g) = stdin g"
  by (simp_all add: load_state_def and_then_frame split: option.splits)

lemma render_frame [simp]:
  "history (render_ui g) = history g" "save_json (render_ui g) = save_json g"
  "skeleton (render_ui g) = skeleton g" "stdin (render_ui g) = stdin g"
  "history (render_room r g) = history g" "save_json (render_room r g) = save_json g"
  "skeleton (render_room r g) = skeleton g" "stdin (render_room r g) = stdin g"
  by (simp_all add: render_ui_def render_room_def split: prod.splits)

lemma stdin_handler:
  "(k, h) \<in> set cmds \<Longrightarrow> length (stdin (h a g)) \<le> length (stdin g)"
  by (auto simp: cmds_def)

lemma skeleton_handler:
  "(k, h) \<in> set cmds \<Longrightarrow> skeleton (h a g) = skeleton g"
  by (auto simp: cmds_def)


subsection \<open>The main loop ends\<close>

lemma stdin_dispatch: "length (stdin (dispatch scorer inp g)) \<le> length (stdin g)"
proof (cases "split inp")
  case Nil
  then show ?thesis by (simp add: dispatch_def)
next
  case (Cons cmd args)
  show ?thesis
  proof (cases "map_of cmds cmd")
    case (Some h)
    then have "(cmd, h) \<in> set cmds" by (rule map_of_SomeD)
    from stdin_handler [OF this] show ?thesis using Cons Some by (simp add: dispatch_def)
  next
    case None
    show ?thesis
    proof (cases "extractOne scorer cmd (map fst cmds)")
      case N: None
      then show ?thesis using Cons None by (simp add: dispatch_def)
    next
      case (Some bs)
      obtain best score where bs: "bs = (best, score)" by (cases bs)
      show ?thesis
      proof (cases "map_of cmds best")
        case N2: None
        then show ?thesis using Cons None Some bs by (simp add: dispatch_def Let_def)
      next
        case S2: (Some h)
        then have "(best, h) \<in> set cmds" by (rule map_of_SomeD)
        from stdin_handler [OF this, of "join '' '' args"
            "print (Line (''[dim italic]Did you mean '' @ apos @ best @ apos @ ''?[/]'')) g"]
        show ?thesis using Cons None Some bs S2 by (simp add: dispatch_def Let_def)
      qed
    qed
  qed
qed

lemma turn_Continue:
  assumes "turn scorer g = (Continue, g')"
  shows "length (stdin g') < length (stdin g)"
proof -
  from assms obtain r l rest where
    l: "stdin g = l # rest"
    and g': "lower (strip l) = [] \<and> g' = (render_room r (render_ui g))\<lparr>stdin := rest\<rparr>
       \<or> stdin g' = stdin (dispatch scorer (lower (strip l))
                             ((render_room r (render_ui g))\<lparr>stdin := rest\<rparr>))"
    by (auto simp: turn_def Let_def split: if_splits option.splits list.splits)
  from g' show ?thesis
  proof
    assume "lower (strip l) = [] \<and> g' = (render_room r (render_ui g))\<lparr>stdin := rest\<rparr>"
    then show ?thesis using l by simp
  next
    assume "stdin g' = stdin (dispatch scorer (lower (strip l))
                               ((render_room r (render_ui g))\<lparr>stdin := rest\<rparr>))"
    moreover have "length (stdin (dispatch scorer (lower (strip l))
                                    ((render_room r (render_ui g))\<lparr>stdin := rest\<rparr>))) \<le> length rest"
      using stdin_dispatch [of scorer "lower (strip l)"
          "(render_room r (render_ui g))\<lparr>stdin := rest\<rparr>"] by simp
    ultimately show ?thesis using l by simp
  qed
qed

termination main_loop
proof (relation "measure (\<lambda>(scorer, g). length (stdin g))")
  show "wf (measure (\<lambda>(scorer, g). length (stdin g)))" by simp
next
  fix scorer g x y
  assume "(x, y) = turn scorer g" "x = Continue"
  then have "turn scorer g = (Continue, y)" by simp
  from turn_Continue [OF this]
  show "((scorer, y), (scorer, g)) \<in> measure (\<lambda>(scorer, g). length (stdin g))"
    by simp
qed

declare main_loop.simps [simp del]

subsection \<open>The phantom's tick\<close>

lemma sanity_phantom_relocate: "sanity (player (phantom_relocate g)) = sanity (player g)"
  by (simp add: phantom_relocate_def raise_def split: option.splits prod.splits)

lemma sanity_phantom_move: "sanity (player (phantom_move g)) = sanity (player g)"
  by (simp add: phantom_move_def sanity_phantom_relocate split: prod.splits)

lemma sanity_phantom_attack:
  "sanity (player (phantom_attack g)) =
     sanity (player g) - py_int (DRAIN_PHANTOM_ATTACK * diff_mult g)"
  by (simp add: phantom_attack_def Let_def print_def shake_def diff_mult_def)

lemma attack_damage:
  assumes "active (phantom g)" and "stun_timer (phantom g) \<le> turns (player g)"
    and "ph_room_id (phantom g) = room_id (player g)"
  shows "sanity (player (update_phantom g)) =
           sanity (player g) - py_int (DRAIN_PHANTOM_ATTACK * diff_mult g)"
  using assms
  by (simp add: update_phantom_def Let_def sanity_phantom_move sanity_phantom_attack)

lemma attack_damage_values:
  "py_int (DRAIN_PHANTOM_ATTACK * diff_mult g) =
     (if difficulty (player g) = ''story'' then 7
      else if difficulty (player g) = ''hard'' then 22 else 15)"
  by (simp add: py_int_def DRAIN_PHANTOM_ATTACK_def diff_mult_def)

lemma tick_example_simps:
  "active (phantom (tick_example s d))" "stun_timer (phantom (tick_example s d)) = s"
  "turns (player (tick_example s d)) = 12" "difficulty (player (tick_example s d)) = d"
  "ph_room_id (phantom (tick_example s d)) = room_id (player (tick_example s d))"
  "sanity (player (tick_example s d)) = 100"
  by (simp_all add: tick_example_def demo_game_def new_game_def Let_def STARTING_SANITY_def)

text \<open>
  Claim C4, as amended. In every tick in which the stun expiry is strictly greater than
  the player's turn counter, \<open>_update_phantom\<close> returns at once: no damage, no
  relocation, no draw from the random generator, nothing printed; the state is the
  same.
\<close>

theorem stunned_tick_no_effect:
  "stun_timer (phantom g) > turns (player g) \<Longrightarrow> update_phantom g = g"
  by (simp add: update_phantom_def)

theorem stunned_tick_no_effect_witness:
  "stun_timer (phantom (tick_example 13 ''normal'')) > turns (player (tick_example 13 ''normal''))
   \<and> update_phantom (tick_example 13 ''normal'') = tick_example 13 ''normal''"
proof -
  have h: "stun_timer (phantom (tick_example 13 ''normal'')) > turns (player (tick_example 13 ''normal''))"
    by (simp add: tick_example_simps)
  show ?thesis using h stunned_tick_no_effect [OF h] by simp
qed

text \<open>
  Claim C4 as stated fails when the stun expiry equals the turn counter: the test of the
  source is \<open>stun_timer > turns\<close>, so at turn 12 with expiry 12 the phantom, in the
  player's room, takes 15 points of sanity.
\<close>

theorem stunned_tick_equal_counterexample:
  "stun_timer (phantom (tick_example 12 ''normal'')) = turns (player (tick_example 12 ''normal''))
   \<and> sanity (player (update_phantom (tick_example 12 ''normal'')))
       = sanity (player (tick_example 12 ''normal'')) - 15"
  by (simp add: attack_damage attack_damage_values tick_example_simps)

text \<open>
  Claim C5, as amended. When the phantom ticks while active, not stunned (the expiry is
  at most the turn counter) and in the player's room, the player's sanity drops by
  \<open>int(15 * multiplier)\<close>, the product truncated: 7 on story, 15 on normal and 22 on
  hard difficulty.
\<close>

theorem phantom_attack_damage:
  assumes "active (phantom g)" and "stun_timer (phantom g) \<le> turns (player g)"
    and "ph_room_id (phantom g) = room_id (player g)"
  shows "sanity (player g) - sanity (player (update_phantom g))
           = py_int (DRAIN_PHANTOM_ATTACK * diff_mult g)
         \<and> py_int (DRAIN_PHANTOM_ATTACK * diff_mult g)
           = (if difficulty (player g) = ''story'' then 7
              else if difficulty (player g) = ''hard'' then 22 else 15)"
  using attack_damage [OF assms] attack_damage_values [of g] by simp

theorem phantom_attack_damage_witness:
  "active (phantom (tick_example 0 ''hard''))
   \<and> stun_timer (phantom (tick_example 0 ''hard'')) \<le> turns (player (tick_example 0 ''hard''))
   \<and> ph_room_id (phantom (tick_example 0 ''hard'')) = room_id (player (tick_example 0 ''hard''))
   \<and> sanity (player (tick_example 0 ''hard''))
       - sanity (player (update_phantom (tick_example 0 ''hard''))) = 22"
proof -
  have a: "active (phantom (tick_example 0 ''hard''))"
    and b: "stun_timer (phantom (tick_example 0 ''hard'')) \<le> turns (player (tick_example 0 ''hard''))"
    and c: "ph_room_id (phantom (tick_example 0 ''hard'')) = room_id (player (tick_example 0 ''hard''))"
    by (simp_all add: tick_example_simps)
  show ?thesis using a b c phantom_attack_damage [OF a b c] by (simp add: tick_example_simps)
qed

text \<open>
  Claim C5 as stated fails on story difficulty: the damage is 7, and 15 times 0.5
  rounds to 8.
\<close>

theorem phantom_attack_round_counterexample:
  "sanity (player (tick_example 0 ''story'')) - sanity (player (update_phantom (tick_example 0 ''story''))) = 7
   \<and> py_round (DRAIN_PHANTOM_ATTACK * diff_mult (tick_example 0 ''story'')) = 8
   \<and> round (DRAIN_PHANTOM_ATTACK * diff_mult (tick_example 0 ''story'')) = 8"
proof -
  have "sanity (player (tick_example 0 ''story''))
          - sanity (player (update_phantom (tick_example 0 ''story''))) = 7"
    by (simp add: attack_damage attack_damage_values tick_example_simps)
  moreover have m: "DRAIN_PHANTOM_ATTACK * diff_mult (tick_example 0 ''story'') = 15 / 2"
    by (simp add: DRAIN_PHANTOM_ATTACK_def diff_mult_def tick_example_simps)
  moreover have "py_round (15 / 2) = 8" "round (15 / 2 :: real) = 8"
    by (simp_all add: py_round_def round_def)
  ultimately show ?thesis unfolding m by blast
qed

subsection \<open>The initial world and the example states\<close>

lemma history_record_action:
  "history (record_action g) =
     (if length (history g) < 10 then history g @ [snapshot g] else tl (history g) @ [snapshot g])"
  by (cases "history g") (simp_all add: record_action_def Let_def)

lemma demo_game_simps:
  "history demo_game = []" "exc demo_game = None" "room_id (player demo_game) = ''gate''"
  "rooms demo_game = init_world (safe_code demo_game)" "save_json demo_game = None"
  by (simp_all add: demo_game_def new_game_def Let_def)

lemma gate_room:
  "map_of (init_world c) ''gate'' =
     Some (mk_room ''gate'' ''Manor Gate''
             ''Rain lashes down. A massive gate blocks North. An old [yellow]Iron Key[/] sits in the mud.''
             [(''north'', ''foyer'')] [mk_item ''gate_key'' ''Iron Key'' ''Rusty but solid.''])"
  by (simp add: init_world_def Let_def)

lemma demo_room: "room_of demo_game None = map_of (init_world (safe_code demo_game)) ''gate''"
  by (simp add: room_of_def room_key_def demo_game_simps)


subsection \<open>The journal\<close>

lemma look_journal:
  assumes "t \<noteq> []" "t \<noteq> ''room''" "t \<noteq> ''around''"
    and "room_of g None = Some r"
    and "find (\<lambda>i. lower (iname i) = t \<or> iid i = t) (inventory (player g) @ items r) = Some it"
    and "interactable it" "hidden_text it = Some h" "h \<noteq> []"
  shows "journal (player (look t g)) =
           (if h \<in> set (journal (player g)) then journal (player g)
            else journal (player g) @ [iname it @ '': '' @ h])"
    and "rooms (look t g) = rooms g" and "room_id (player (look t g)) = room_id (player g)"
    and "inventory (player (look t g)) = inventory (player g)"
  using assms
  by (auto simp: look_def Let_def print_def split: prod.splits list.splits)

lemma kitchen_room:
  "map_of (init_world c) ''kitchen'' =
     Some (mk_room ''kitchen'' ''Kitchen'' ''Smells of rot.''
             [(''west'', ''foyer''), (''down'', ''basement'')]
             [note_item c, (mk_item ''batteries'' ''Spare Batteries'' ''Standard voltage.'')\<lparr>ivalue := 10\<rparr>])"
  by (simp add: init_world_def Let_def note_item_def)

lemma kitchen_example_simps:
  "room_of kitchen_example None = map_of (init_world (safe_code demo_game)) ''kitchen''"
  "inventory (player kitchen_example) = []" "journal (player kitchen_example) = []"
  by (simp_all add: kitchen_example_def room_of_def room_key_def demo_game_simps)
     (simp_all add: demo_game_def new_game_def Let_def)

lemma find_note:
  "find (\<lambda>i. lower (iname i) = ''note'' \<or> iid i = ''note'')
     [note_item c, (mk_item ''batteries'' ''Spare Batteries'' ''Standard voltage.'')\<lparr>ivalue := 10\<rparr>] = Some (note_item c)"
  by (simp add: note_item_def mk_item_def)

text \<open>
  Claim C8 fails on the code. \<open>look\<close> tests whether the hidden text is in the journal
  and appends the item's name, a colon and the hidden text: the entry is never the
  string tested, so looking at the note twice writes its entry twice.
\<close>

theorem look_note_twice_duplicates:
  "journal (player (look ''note'' (look ''note'' kitchen_example))) =
     [''Crumpled Note: Code: '' @ safe_code demo_game, ''Crumpled Note: Code: '' @ safe_code demo_game]"
proof -
  let ?r = "mk_room ''kitchen'' ''Kitchen'' ''Smells of rot.''
             [(''west'', ''foyer''), (''down'', ''basement'')]
             [note_item (safe_code demo_game), (mk_item ''batteries'' ''Spare Batteries'' ''Standard voltage.'')\<lparr>ivalue := 10\<rparr>]"
  let ?it = "note_item (safe_code demo_game)"
  let ?g1 = "look ''note'' kitchen_example"
  have r: "room_of kitchen_example None = Some ?r"
    by (simp add: kitchen_example_simps kitchen_room)
  have f: "find (\<lambda>i. lower (iname i) = ''note'' \<or> iid i = ''note'')
             (inventory (player kitchen_example) @ items ?r) = Some ?it"
    by (simp only: kitchen_example_simps mk_room_def room.simps append_Nil find_note)
  have it: "interactable ?it" "hidden_text ?it = Some (''Code: '' @ safe_code demo_game)" "iname ?it = ''Crumpled Note''"
    by (simp_all add: note_item_def mk_item_def)
  have ne: "''Code: '' @ safe_code demo_game \<noteq> []" "''note'' \<noteq> []" "''note'' \<noteq> ''room''" "''note'' \<noteq> ''around''" by simp_all
  note L = look_journal [OF ne(2) ne(3) ne(4) _ _ it(1) it(2) ne(1)]
  have j1: "journal (player ?g1) = [''Crumpled Note: Code: '' @ safe_code demo_game]"
    using L(1) [OF r f] by (simp add: kitchen_example_simps it)
  have r1: "room_of ?g1 None = Some ?r"
    using L(2) [OF r f] L(3) [OF r f] r by (simp add: room_of_def room_key_def)
  have f1: "find (\<lambda>i. lower (iname i) = ''note'' \<or> iid i = ''note'')
             (inventory (player ?g1) @ items ?r) = Some ?it"
    using L(4) [OF r f] f by simp
  show ?thesis using L(1) [OF r1 f1] by (simp add: j1 it)
qed


subsection \<open>Listening\<close>

lemma room_of_frame [simp]:
  "room_of (print m g) x = room_of g x" "room_of (record_action g) x = room_of g x"
  by (simp_all add: room_of_def room_key_def print_def record_action_def Let_def
      split: option.splits list.splits)

text \<open>
  Claim C9, as amended. In a room that exists, \<open>listen\<close> leaves the player, the phantom,
  the rooms, the seed, the safe code, the piano flag, the random generator, the input
  and the save file as they were, and prints the tier: here, when the phantom's room id
  is the room's id; nearby, when it is the target of one of the room's exits; silence
  otherwise. It pushes a snapshot on the undo history, as \<open>_record_action\<close> does.
\<close>

theorem listen_effect:
  assumes "room_of g None = Some cur"
  shows "seed (listen a g) = seed g \<and> rooms (listen a g) = rooms g \<and> player (listen a g) = player g
       \<and> phantom (listen a g) = phantom g \<and> safe_code (listen a g) = safe_code g
       \<and> piano_solved (listen a g) = piano_solved g \<and> rand (listen a g) = rand g
       \<and> stdin (listen a g) = stdin g \<and> save_json (listen a g) = save_json g
       \<and> exc (listen a g) = exc g
       \<and> history (listen a g) = history (record_action g)
       \<and> console (listen a g) = console g @
            [Line ''[italic]Listening...[/]'',
             Line (if ph_room_id (phantom g) = rid cur then ''[bold red]IT IS HERE![/]''
                   else if list_ex (\<lambda>e. ph_room_id (phantom g) = snd e) (exits cur)
                   then ''[bold yellow]You hear shuffling nearby.[/]''
                   else ''[dim]Silence.[/]'')]"
  using assms by (simp add: listen_def Let_def) (simp add: print_def record_action_def Let_def)

theorem listen_effect_witness:
  "room_of demo_game None \<noteq> None \<and> player (listen [] demo_game) = player demo_game
   \<and> console (listen [] demo_game) = [Line ''[italic]Listening...[/]'', Line ''[dim]Silence.[/]'']"
proof -
  let ?r = "mk_room ''gate'' ''Manor Gate''
             ''Rain lashes down. A massive gate blocks North. An old [yellow]Iron Key[/] sits in the mud.''
             [(''north'', ''foyer'')] [mk_item ''gate_key'' ''Iron Key'' ''Rusty but solid.'']"
  have r: "room_of demo_game None = Some ?r" by (simp add: demo_room gate_room)
  have "ph_room_id (phantom demo_game) = ''attic''" "console demo_game = []"
    by (simp_all add: demo_game_def new_game_def Let_def)
  then show ?thesis using r listen_effect [OF r, of "[]"] by (simp add: mk_room_def)
qed

text \<open>
  Claim C9 as stated fails for the undo history: \<open>listen\<close> starts with
  \<open>self._record_action()\<close>, so in a new game the history grows from empty to one
  snapshot.
\<close>

theorem listen_history_counterexample:
  "history (listen [] demo_game) = [snapshot demo_game] \<and> history demo_game = []"
  by (simp add: history_record_action demo_game_simps)


subsection \<open>Snapshots are read back as written\<close>

lemma traverse_map:
  "(\<And>x. x \<in> set xs \<Longrightarrow> f (enc x) = Inr x) \<Longrightarrow> traverse f (map enc xs) = Inr xs"
  by (induction xs) (simp_all add: bind_res_def)

lemma Item_kwargs_item_json: "Item_kwargs (item_json i) = Inr i"
  by (cases "hidden_text i")
     (simp_all add: Item_kwargs_def item_json_def kwargs_ok_def kwarg_def bind_res_def
        as_str_def as_bool_def as_int_def as_opt_str_def)

lemma Items_of_json: "Items_of (JArr (map item_json its)) = Inr its"
  by (simp add: Items_of_def traverse_map Item_kwargs_item_json)

lemma as_str_list_json: "as_str_list (JArr (map JStr ss)) = Inr ss"
  by (simp add: as_str_list_def traverse_map as_str_def)

lemma as_exits_json: "as_exits (JObj (map (\<lambda>e. (fst e, JStr (snd e))) ex)) = Inr ex"
  by (simp add: as_exits_def traverse_map as_str_def bind_res_def)

lemma visited_of_json: "visited_of (JArr (map JStr (sorted_list_of_fset v))) = Inr v"
  by (simp add: visited_of_def traverse_map as_str_def bind_res_def)

lemma Player_kwargs_json:
  "Player_kwargs (player_json p) = Inr (p\<lparr>inventory := [], visited := {||}\<rparr>)"
  by (simp add: Player_kwargs_def player_json_def kwargs_ok_def kwarg_def bind_res_def
        as_str_def as_bool_def as_int_def as_str_list_json)

lemma Phantom_kwargs_json: "Phantom_kwargs (phantom_json f) = Inr f"
  by (simp add: Phantom_kwargs_def phantom_json_def kwargs_ok_def kwarg_def bind_res_def
        as_str_def as_bool_def as_int_def)

lemma restore_player_json:
  "subscript data ''player'' = Inr (player_json p) \<Longrightarrow> restore_player data g = g\<lparr>player := p\<rparr>"
  by (simp add: restore_player_def Player_kwargs_json)
     (simp add: player_json_def subscript_def kwarg_def Items_of_json visited_of_json)

lemma restore_room_json:
  assumes "exc g = None" "map_of (rooms g) k \<noteq> None"
  shows "restore_room k (room_json r) g = upd_room k (restored_room r) g"
proof -
  have s: "subscript (room_json r) ''locked'' = Inr (JBool (locked r))"
    "subscript (room_json r) ''items'' = Inr (JArr (map item_json (items r)))"
    "subscript (room_json r) ''exits'' = Inr (JObj (map (\<lambda>e. (fst e, JStr (snd e))) (exits r)))"
    by (simp_all add: room_json_def subscript_def)
  show ?thesis using assms
    by (simp add: restore_room_def s bind_res_def as_bool_def Items_of_json as_exits_json
        assign_def and_then_def upd_room_def Let_def restored_room_def comp_def
        cong: if_cong)
qed

lemma restore_room_absent:
  "map_of (rooms g) k = None \<Longrightarrow> restore_room k d g = g"
  by (simp add: restore_room_def)


lemma upd_room_other:
  "k \<notin> fst ` set xs \<Longrightarrow> map (\<lambda>kr. if fst kr = k then (fst kr, f (snd kr)) else kr) xs = xs"
  by (induction xs) auto

lemma restored_room_static:
  "static c = static r \<Longrightarrow> restored_room r c = r"
  by (simp add: restored_room_def static_def)

lemma restore_rooms_json_any:
  "exc g = None \<Longrightarrow>
   \<exists>R. restore_rooms (map (\<lambda>kr. (fst kr, room_json (snd kr))) pre) g = g\<lparr>rooms := R\<rparr>"
proof (induction pre arbitrary: g)
  case Nil
  have "g = g\<lparr>rooms := rooms g\<rparr>" by simp
  then show ?case by (metis list.simps(8) restore_rooms.simps(1))
next
  case (Cons kr pre)
  obtain R1 where r1: "restore_room (fst kr) (room_json (snd kr)) g = g\<lparr>rooms := R1\<rparr>"
  proof (cases "map_of (rooms g) (fst kr)")
    case None
    then have "restore_room (fst kr) (room_json (snd kr)) g = g\<lparr>rooms := rooms g\<rparr>"
      by (simp add: restore_room_absent)
    then show ?thesis using that by blast
  next
    case (Some a)
    then have "restore_room (fst kr) (room_json (snd kr)) g = upd_room (fst kr) (restored_room (snd kr)) g"
      using Cons.prems by (simp add: restore_room_json)
    then show ?thesis using that by (simp add: upd_room_def)
  qed
  have e: "exc (g\<lparr>rooms := R1\<rparr>) = None" using Cons.prems by simp
  from Cons.IH [OF e] obtain R where
    "restore_rooms (map (\<lambda>kr. (fst kr, room_json (snd kr))) pre) (g\<lparr>rooms := R1\<rparr>) = g\<lparr>rooms := R\<rparr>"
    by auto
  then show ?case using r1 e by (auto simp: and_then_def)
qed

lemma restore_rooms_json_exact:
  assumes "exc g = None"
    and "rooms g = done @ cur"
    and "map (\<lambda>kr. (fst kr, static (snd kr))) cur = map (\<lambda>kr. (fst kr, static (snd kr))) pre"
    and "distinct (map fst (done @ pre))"
  shows "restore_rooms (map (\<lambda>kr. (fst kr, room_json (snd kr))) pre) g = g\<lparr>rooms := done @ pre\<rparr>"
  using assms
proof (induction pre arbitrary: g "done" cur)
  case Nil
  then show ?case by simp
next
  case (Cons kr pre)
  obtain k r where kr: "kr = (k, r)" by (cases kr)
  from Cons.prems(3) kr obtain c cur' where cur: "cur = (k, c) # cur'" and st: "static c = static r"
    and rest: "map (\<lambda>kr. (fst kr, static (snd kr))) cur' = map (\<lambda>kr. (fst kr, static (snd kr))) pre"
    by (cases cur) auto
  have "map fst (map (\<lambda>kr. (fst kr, static (snd kr))) cur') = map fst cur'"
    "map fst (map (\<lambda>kr. (fst kr, static (snd kr))) pre) = map fst pre"
    by (simp_all add: comp_def)
  with rest have keys: "map fst cur' = map fst pre" by simp
  have "k \<notin> set (map fst done)" "k \<notin> set (map fst pre)"
    using Cons.prems(4) kr by auto
  moreover from keys have "set (map fst cur') = set (map fst pre)" by simp
  ultimately have kd: "k \<notin> fst ` set done" "k \<notin> fst ` set cur'"
    by (simp_all only: set_map not_False_eq_True)
  have present: "map_of (rooms g) k \<noteq> None"
    using Cons.prems(2) cur by (simp add: map_of_eq_None_iff image_Un)
  have step: "restore_room k (room_json r) g = g\<lparr>rooms := (done @ [(k, r)]) @ cur'\<rparr>"
    using Cons.prems(1,2) present cur kd st
    by (simp add: restore_room_json upd_room_def upd_room_other restored_room_static)
  have e: "exc (g\<lparr>rooms := (done @ [(k, r)]) @ cur'\<rparr>) = None" using Cons.prems(1) by simp
  have d: "distinct (map fst ((done @ [(k, r)]) @ pre))"
    using Cons.prems(4) kr by auto
  from Cons.IH [OF e _ rest d, of ] 
  have "restore_rooms (map (\<lambda>kr. (fst kr, room_json (snd kr))) pre) (g\<lparr>rooms := (done @ [(k, r)]) @ cur'\<rparr>)
        = g\<lparr>rooms := (done @ [(k, r)]) @ pre\<rparr>"
    by simp
  then show ?case using step e kr by (simp add: and_then_def)
qed

lemma restore_snapshot_rooms:
  assumes "exc g = None"
  shows "restore (snapshot g0) g =
     restore_rooms (map (\<lambda>kr. (fst kr, room_json (snd kr))) (rooms g0))
       (g\<lparr>seed := seed g0, safe_code := safe_code g0, piano_solved := piano_solved g0,
          player := player g0, phantom := phantom g0\<rparr>)"
proof -
  let ?d = "JObj [(''player'', player_json (player g0)), (''phantom'', phantom_json (phantom g0)),
                  (''seed'', JStr (seed g0)), (''safe_code'', JStr (safe_code g0)),
                  (''piano_solved'', JBool (piano_solved g0)),
                  (''rooms'', JObj (map (\<lambda>kr. (fst kr, room_json (snd kr))) (rooms g0)))]"
  have s: "subscript ?d ''seed'' = Inr (JStr (seed g0))"
    "subscript ?d ''safe_code'' = Inr (JStr (safe_code g0))"
    "subscript ?d ''player'' = Inr (player_json (player g0))"
    "subscript ?d ''phantom'' = Inr (phantom_json (phantom g0))"
    "subscript ?d ''rooms'' = Inr (JObj (map (\<lambda>kr. (fst kr, room_json (snd kr))) (rooms g0)))"
    "kwarg [(''player'', player_json (player g0)), (''phantom'', phantom_json (phantom g0)),
                  (''seed'', JStr (seed g0)), (''safe_code'', JStr (safe_code g0)),
                  (''piano_solved'', JBool (piano_solved g0)),
                  (''rooms'', JObj (map (\<lambda>kr. (fst kr, room_json (snd kr))) (rooms g0)))] ''piano_solved'' (JBool False) = JBool (piano_solved g0)"
    by (simp_all add: subscript_def kwarg_def)
  have "restore (snapshot g0) g = restore (Encodes ?d) g"
    by (simp add: snapshot_def json_dumps_def)
  also have "\<dots> = restore_rooms (map (\<lambda>kr. (fst kr, room_json (snd kr))) (rooms g0))
       (g\<lparr>seed := seed g0, safe_code := safe_code g0, piano_solved := piano_solved g0,
          player := player g0, phantom := phantom g0\<rparr>)"
    using assms
    by (simp add: restore_def json_loads_def s restore_player_json [OF s(3)] Phantom_kwargs_json
        bind_res_def as_str_def as_bool_def assign_def and_then_def Let_def)
  finally show ?thesis .
qed

lemma record_action_fields [simp]:
  "seed (record_action g) = seed g" "rooms (record_action g) = rooms g"
  "player (record_action g) = player g" "phantom (record_action g) = phantom g"
  "safe_code (record_action g) = safe_code g" "piano_solved (record_action g) = piano_solved g"
  "rand (record_action g) = rand g" "exc (record_action g) = exc g"
  "console (record_action g) = console g" "sound_enabled (record_action g) = sound_enabled g"
  by (simp_all add: record_action_def Let_def)

lemma print_fields [simp]:
  "seed (print m g) = seed g" "rooms (print m g) = rooms g"
  "player (print m g) = player g" "phantom (print m g) = phantom g"
  "safe_code (print m g) = safe_code g" "piano_solved (print m g) = piano_solved g"
  "rand (print m g) = rand g" "exc (print m g) = exc g"
  "console (print m g) = console g @ [m]" "sound_enabled (print m g) = sound_enabled g"
  by (simp_all add: print_def)

lemma restore_snapshot:
  assumes "exc g = None" "skeleton g = skeleton g0" "distinct (map fst (rooms g0))"
  shows "restore (snapshot g0) g =
           g\<lparr>seed := seed g0, safe_code := safe_code g0, piano_solved := piano_solved g0,
             player := player g0, phantom := phantom g0, rooms := rooms g0\<rparr>"
proof -
  let ?g = "g\<lparr>seed := seed g0, safe_code := safe_code g0, piano_solved := piano_solved g0,
             player := player g0, phantom := phantom g0\<rparr>"
  have "restore_rooms (map (\<lambda>kr. (fst kr, room_json (snd kr))) (rooms g0)) ?g = ?g\<lparr>rooms := [] @ rooms g0\<rparr>"
    using assms by (intro restore_rooms_json_exact [where cur = "rooms g"]) (simp_all add: skeleton_def)
  then show ?thesis using assms(1) by (simp add: restore_snapshot_rooms)
qed

lemma last_record_action:
  "history (record_action g) \<noteq> [] \<and> last (history (record_action g)) = snapshot g"
  by (cases "history g") (simp_all add: history_record_action)

lemma mutating_frame:
  "h \<in> set mutating \<Longrightarrow> history (h a g) = history (record_action g) \<and> skeleton (h a g) = skeleton g"
  by (auto simp: mutating_def)

lemma undo_restores:
  assumes "history g' \<noteq> []" "last (history g') = snapshot g" "exc g' = None"
    "skeleton g' = skeleton g" "distinct (map fst (rooms g))"
  shows "undo b g' =
     g'\<lparr>seed := seed g, safe_code := safe_code g, piano_solved := piano_solved g,
        player := player g, phantom := phantom g, rooms := rooms g,
        history := butlast (history g'),
        console := console g' @ [Line ''[bold yellow] Time Rewind.[/]'']\<rparr>"
proof -
  have "restore (snapshot g) (g'\<lparr>history := butlast (history g')\<rparr>) =
     (g'\<lparr>history := butlast (history g')\<rparr>)\<lparr>seed := seed g, safe_code := safe_code g, piano_solved := piano_solved g,
        player := player g, phantom := phantom g, rooms := rooms g\<rparr>"
    using assms by (intro restore_snapshot) simp_all
  then show ?thesis using assms(1,2,3) by (simp add: undo_def and_then_def print_def)
qed

lemma init_world_keys:
  "map fst (init_world c) = [''gate'', ''foyer'', ''kitchen'', ''library'', ''bedroom'', ''basement'',
      ''attic'', ''garden'', ''study'']"
  by (simp add: init_world_def Let_def)

lemma init_world_distinct: "distinct (map fst (init_world c))"
  by (simp add: init_world_keys)

lemma library_present: "map_of (init_world c) ''library'' \<noteq> None"
  by (simp add: init_world_def Let_def)

lemma play_piano_solves:
  assumes "str_in ''piano'' t" "room_id (player g) = ''library''" "\<not> piano_solved g"
    "stdin g = l # rest" "upper (strip l) = ''DAD''" "map_of (rooms g) ''library'' \<noteq> None"
  shows "play_piano t g =
     (upd_room ''library'' (\<lambda>r. r\<lparr>exits := dict_set ''east'' ''study'' (exits r)\<rparr>)
        (print (Line ''[cyan]A hidden door slides open to the East![/]'')
           ((record_action g)\<lparr>stdin := rest\<rparr>)))\<lparr>piano_solved := True\<rparr>"
  using assms
  by (clarsimp simp: play_piano_def Let_def split: option.splits)


lemma library_example_simps:
  "room_id (player library_example) = ''library''" "\<not> piano_solved library_example"
  "stdin library_example = [''dad'']" "rooms library_example = init_world (safe_code demo_game)"
  "exc library_example = None"
  by (simp_all add: library_example_def demo_game_simps)
     (simp_all add: demo_game_def new_game_def Let_def)

lemma dad: "upper (strip ''dad'') = ''DAD''" "str_in ''piano'' ''piano''"
  by (simp_all add: upper_def upper_char_def strip_def strip_of_def isspace_def)

text \<open>
  Claim C1. For each of the nine handlers that push a snapshot (move, take, drop, use,
  unlock, play, flash, hint, listen): when the command returns without an exception,
  \<open>undo\<close> after it puts back the player, the phantom, the seed, the safe code, the piano
  flag and every room (its lock, its items and its exits, so an exit the piano added is
  gone again) exactly as they were before the command. The keys of \<open>self.rooms\<close> are
  distinct, as the keys of a dictionary are.
\<close>

theorem undo_after_command:
  assumes "h \<in> set mutating" and "exc (h a g) = None" and "distinct (map fst (rooms g))"
  shows "player (undo b (h a g)) = player g \<and> phantom (undo b (h a g)) = phantom g
       \<and> seed (undo b (h a g)) = seed g \<and> safe_code (undo b (h a g)) = safe_code g
       \<and> piano_solved (undo b (h a g)) = piano_solved g \<and> rooms (undo b (h a g)) = rooms g
       \<and> exc (undo b (h a g)) = None"
proof -
  from mutating_frame [OF assms(1), of a g] last_record_action [of g]
  have "history (h a g) \<noteq> []" "last (history (h a g)) = snapshot g" "skeleton (h a g) = skeleton g"
    by simp_all
  from undo_restores [OF this(1,2) assms(2) this(3) assms(3), of b] assms(2)
  show ?thesis by simp
qed

theorem undo_after_command_witness:
  "play_piano \<in> set mutating \<and> exc (play_piano ''piano'' library_example) = None
   \<and> distinct (map fst (rooms library_example))
   \<and> piano_solved (play_piano ''piano'' library_example)
   \<and> \<not> piano_solved (undo [] (play_piano ''piano'' library_example))
   \<and> rooms (undo [] (play_piano ''piano'' library_example)) = rooms library_example
   \<and> player (undo [] (play_piano ''piano'' library_example)) = player library_example"
proof -
  have m: "play_piano \<in> set mutating" by (simp add: mutating_def)
  have p: "map_of (rooms library_example) ''library'' \<noteq> None"
    by (simp only: library_example_simps library_present not_False_eq_True)
  note P = play_piano_solves [OF dad(2) library_example_simps(1,2,3) dad(1) p]
  have e: "exc (play_piano ''piano'' library_example) = None"
    by (simp add: P upd_room_def library_example_simps)
  have s: "piano_solved (play_piano ''piano'' library_example)"
    by (simp add: P)
  have d: "distinct (map fst (rooms library_example))"
    by (simp only: library_example_simps init_world_distinct)
  from undo_after_command [OF m e d, of "[]"] m e d s show ?thesis
    by (simp add: library_example_simps)
qed

subsection \<open>Loading\<close>

text \<open>
  Claim C10, as amended. With no save file, \<open>load\<close> changes nothing and prints nothing.
  With a save file that is not JSON, \<open>json.loads\<close> raises before any assignment: the
  state is as it was, and the exception is on its way out of \<open>start\<close>. With a save
  file written by \<open>save\<close>, the seed, the safe code, the piano flag, the player, the
  phantom and the rooms are those of the saved game.
\<close>

theorem load_state_effect:
  "(save_json g = None \<longrightarrow> load_state a g = g)
   \<and> (save_json g = Some Unparsable \<longrightarrow> load_state a g = g\<lparr>exc := Some JSONDecodeError\<rparr>)
   \<and> (save_json g = Some (snapshot g0) \<and> exc g = None \<and> skeleton g = skeleton g0
        \<and> distinct (map fst (rooms g0)) \<longrightarrow>
      load_state a g =
        g\<lparr>seed := seed g0, safe_code := safe_code g0, piano_solved := piano_solved g0,
          player := player g0, phantom := phantom g0, rooms := rooms g0,
          console := console g @ [Line ''[green]Loaded.[/]'']\<rparr>)"
proof (intro conjI impI)
  assume "save_json g = None"
  then show "load_state a g = g" by (simp add: load_state_def)
next
  assume "save_json g = Some Unparsable"
  then show "load_state a g = g\<lparr>exc := Some JSONDecodeError\<rparr>"
    by (simp add: load_state_def restore_def json_loads_def raise_def and_then_def)
next
  assume a: "save_json g = Some (snapshot g0) \<and> exc g = None \<and> skeleton g = skeleton g0
        \<and> distinct (map fst (rooms g0))"
  then have "restore (snapshot g0) g =
           g\<lparr>seed := seed g0, safe_code := safe_code g0, piano_solved := piano_solved g0,
             player := player g0, phantom := phantom g0, rooms := rooms g0\<rparr>"
    by (intro restore_snapshot) simp_all
  then show "load_state a g =
        g\<lparr>seed := seed g0, safe_code := safe_code g0, piano_solved := piano_solved g0,
          player := player g0, phantom := phantom g0, rooms := rooms g0,
          console := console g @ [Line ''[green]Loaded.[/]'']\<rparr>"
    using a by (simp add: load_state_def and_then_def print_def)
qed

lemma skeleton_kitchen: "skeleton kitchen_example = skeleton demo_game"
  by (simp add: kitchen_example_def)

theorem load_state_effect_witness:
  "save_json demo_game = None \<and> load_state [] demo_game = demo_game
   \<and> save_json (demo_game\<lparr>save_json := Some Unparsable\<rparr>) = Some Unparsable
   \<and> exc (load_state [] (demo_game\<lparr>save_json := Some Unparsable\<rparr>)) = Some JSONDecodeError
   \<and> player (load_state [] (demo_game\<lparr>save_json := Some Unparsable\<rparr>)) = player demo_game
   \<and> save_json (demo_game\<lparr>save_json := Some (snapshot kitchen_example)\<rparr>) = Some (snapshot kitchen_example)
   \<and> exc (demo_game\<lparr>save_json := Some (snapshot kitchen_example)\<rparr>) = None
   \<and> skeleton (demo_game\<lparr>save_json := Some (snapshot kitchen_example)\<rparr>) = skeleton kitchen_example
   \<and> distinct (map fst (rooms kitchen_example))
   \<and> player (load_state [] (demo_game\<lparr>save_json := Some (snapshot kitchen_example)\<rparr>)) = player kitchen_example
   \<and> exc (load_state [] (demo_game\<lparr>save_json := Some (snapshot kitchen_example)\<rparr>)) = None"
proof -
  let ?u = "demo_game\<lparr>save_json := Some Unparsable\<rparr>"
  let ?k = "demo_game\<lparr>save_json := Some (snapshot kitchen_example)\<rparr>"
  have a: "save_json demo_game = None" by (simp add: demo_game_simps)
  have b: "save_json ?u = Some Unparsable" by simp
  have c: "save_json ?k = Some (snapshot kitchen_example)" "exc ?k = None"
    "skeleton ?k = skeleton kitchen_example"
    by (simp_all add: demo_game_simps skeleton_kitchen)
  have d: "distinct (map fst (rooms kitchen_example))"
    by (simp add: kitchen_example_def demo_game_simps init_world_distinct)
  from load_state_effect [of demo_game "[]"] a have 1: "load_state [] demo_game = demo_game" by blast
  from load_state_effect [of ?u "[]"] b have 2: "load_state [] ?u = ?u\<lparr>exc := Some JSONDecodeError\<rparr>"
    by blast
  from load_state_effect [of ?k "[]" kitchen_example] c d
  have 3: "load_state [] ?k =
        ?k\<lparr>seed := seed kitchen_example, safe_code := safe_code kitchen_example,
          piano_solved := piano_solved kitchen_example,
          player := player kitchen_example, phantom := phantom kitchen_example,
          rooms := rooms kitchen_example,
          console := console ?k @ [Line ''[green]Loaded.[/]'']\<rparr>" by blast
  show ?thesis using a c d by (simp add: 1 2 3)
qed

text \<open>
  Claim C10 as stated fails on a save file that is JSON but not a whole snapshot:
  \<open>_restore\<close> assigns field after field with no \<open>try\<close> around it, so with only a seed
  and a safe code in the file the two are overwritten, then \<open>data["player"]\<close> raises
  \<open>KeyError\<close>; nothing is reported and nothing is rolled back.
\<close>

lemma restore_torn:
  "exc g = None \<Longrightarrow>
   restore torn_save g = g\<lparr>seed := ''9999'', safe_code := ''000'', piano_solved := False,
                            exc := Some KeyError\<rparr>"
  by (simp add: restore_def torn_save_def json_loads_def subscript_def kwarg_def bind_res_def
      as_str_def as_bool_def assign_def and_then_def restore_player_def raise_def Let_def)

theorem load_torn_counterexample:
  "exc (demo_game\<lparr>save_json := Some torn_save\<rparr>) = None
   \<and> seed (demo_game\<lparr>save_json := Some torn_save\<rparr>) = ''1234''
   \<and> exc (load_state [] (demo_game\<lparr>save_json := Some torn_save\<rparr>)) = Some KeyError
   \<and> seed (load_state [] (demo_game\<lparr>save_json := Some torn_save\<rparr>)) = ''9999''
   \<and> console (load_state [] (demo_game\<lparr>save_json := Some torn_save\<rparr>)) = []"
proof -
  have e: "exc (demo_game\<lparr>save_json := Some torn_save\<rparr>) = None"
    by (simp add: demo_game_simps)
  have s: "seed demo_game = ''1234''" "console demo_game = []"
    by (simp_all add: demo_game_def new_game_def Let_def)
  show ?thesis using e s
    by (simp add: load_state_def restore_torn [OF e] and_then_def)
qed

subsection \<open>Command routing\<close>

lemma best_of_props:
  "fst b \<in> S \<Longrightarrow> snd b = sc (fst b) \<Longrightarrow> set ks \<subseteq> S \<Longrightarrow>
   fst (best_of sc b ks) \<in> S \<and> snd (best_of sc b ks) = sc (fst (best_of sc b ks))
   \<and> snd b \<le> snd (best_of sc b ks) \<and> (\<forall>k\<in>set ks. sc k \<le> snd (best_of sc b ks))"
proof (induction ks arbitrary: b)
  case Nil
  then show ?case by simp
next
  case (Cons k ks)
  show ?case
  proof (cases "sc k > snd b")
    case True
    from Cons.IH [of "(k, sc k)"] Cons.prems True show ?thesis by force
  next
    case False
    from Cons.IH [of b] Cons.prems False show ?thesis by force
  qed
qed

lemma extractOne_props:
  assumes "choices \<noteq> []"
  shows "\<exists>best. extractOne scorer q choices = Some (best, scorer q best) \<and> best \<in> set choices
          \<and> (\<forall>k\<in>set choices. scorer q k \<le> scorer q best)"
proof -
  from assms obtain k ks where c: "choices = k # ks" by (cases choices) auto
  let ?r = "best_of (scorer q) (k, scorer q k) ks"
  from best_of_props [of "(k, scorer q k)" "set choices" "scorer q" ks] c
  have p: "fst ?r \<in> set choices" "snd ?r = scorer q (fst ?r)" "scorer q k \<le> snd ?r"
    "\<forall>k\<in>set ks. scorer q k \<le> snd ?r"
    by auto
  have "extractOne scorer q choices = Some (fst ?r, scorer q (fst ?r))"
    using c p(2) by (simp add: extractOne_def prod_eq_iff)
  moreover have "\<forall>k'\<in>set choices. scorer q k' \<le> scorer q (fst ?r)"
    using p c by auto
  ultimately show ?thesis using p(1) by blast
qed

lemma cmds_nonempty: "map fst cmds \<noteq> []"
  by (simp add: cmds_def)

lemma cmds_key: "k \<in> set (map fst cmds) \<Longrightarrow> \<exists>h. map_of cmds k = Some h"
  by (metis map_of_eq_None_iff not_Some_eq set_map)

lemma dispatch_fuzzy:
  assumes "split inp = cmd # args" "map_of cmds cmd = None"
  shows "\<exists>best h. map_of cmds best = Some h
          \<and> (\<forall>k\<in>set (map fst cmds). scorer cmd k \<le> scorer cmd best)
          \<and> dispatch scorer inp g =
              (if scorer cmd best \<ge> FUZZY_CONFIDENCE
               then h (join '' '' args)
                      (print (Line (''[dim italic]Did you mean '' @ apos @ best @ apos @ ''?[/]'')) g)
               else print (Line ''[dim]Unknown command.[/]'') g)"
proof -
  from extractOne_props [OF cmds_nonempty, of scorer cmd]
  obtain best where b: "extractOne scorer cmd (map fst cmds) = Some (best, scorer cmd best)"
    "best \<in> set (map fst cmds)" "\<forall>k\<in>set (map fst cmds). scorer cmd k \<le> scorer cmd best"
    by blast
  from cmds_key [OF b(2)] obtain h where h: "map_of cmds best = Some h" by blast
  have "dispatch scorer inp g =
              (if scorer cmd best \<ge> FUZZY_CONFIDENCE
               then h (join '' '' args)
                      (print (Line (''[dim italic]Did you mean '' @ apos @ best @ apos @ ''?[/]'')) g)
               else print (Line ''[dim]Unknown command.[/]'') g)"
    using assms b(1) h by (simp add: dispatch_def Let_def)
  with h b(3) show ?thesis by blast
qed

lemma prompted_fields:
  "seed (prompted r rest g) = seed g" "rooms (prompted r rest g) = rooms g"
  "player (prompted r rest g) = player g" "phantom (prompted r rest g) = phantom g"
  "safe_code (prompted r rest g) = safe_code g" "piano_solved (prompted r rest g) = piano_solved g"
  "history (prompted r rest g) = history g" "save_json (prompted r rest g) = save_json g"
  "exc (prompted r rest g) = exc g" "stdin (prompted r rest g) = rest"
  by (simp_all add: prompted_def render_room_def render_ui_def split: prod.splits)

lemma turn_reads:
  assumes "stdin g = l # rest" "room_id (player g) \<noteq> ''garden''" "room_of g None = Some r"
  shows "turn scorer g =
           (if lower (strip l) = [] then (Continue, prompted r rest g)
            else sanity_check (dispatch scorer (lower (strip l)) (prompted r rest g)))"
proof -
  have "room_of (render_ui g) None = Some r"
    using assms(3) by (simp add: render_ui_def)
  then show ?thesis using assms(1,2)
    by (simp add: turn_def Let_def prompted_def sanity_check_def)
qed

lemma split_Nil: "split [] = []"
  by (simp add: split_def)

text \<open>
  Claim C6. In a pass of the loop that reads a line (the player is not in the garden and
  the room exists): if the line is empty after stripping, the pass ends there, with the
  state as it was drawn and the line consumed; no handler runs, no snapshot is pushed,
  and the player, the phantom, the rooms and the session fields are untouched (the
  drawing itself prints and, at sanity 60 or below, draws random numbers for the text).
  If the first token is not a key of the command table, the key with the highest score
  is taken: at 80 or more the substitution is printed and that key's handler is called
  with the argument string; below 80 the unknown-command line is printed, which
  changes the console only. Either way the statements after the dispatch follow; with
  no exception pending and sanity above 0, the pass after an unknown command
  continues with exactly that state.
\<close>

theorem fuzzy_dispatch:
  assumes "stdin g = l # rest" and "room_id (player g) \<noteq> ''garden''"
    and "room_of g None = Some r"
  shows
    "(lower (strip l) = [] \<longrightarrow>
        turn scorer g = (Continue, prompted r rest g)
        \<and> seed (prompted r rest g) = seed g \<and> rooms (prompted r rest g) = rooms g
        \<and> player (prompted r rest g) = player g \<and> phantom (prompted r rest g) = phantom g
        \<and> safe_code (prompted r rest g) = safe_code g
        \<and> piano_solved (prompted r rest g) = piano_solved g
        \<and> history (prompted r rest g) = history g \<and> save_json (prompted r rest g) = save_json g
        \<and> exc (prompted r rest g) = exc g)
     \<and> (split (lower (strip l)) = cmd # args \<and> map_of cmds cmd = None \<longrightarrow>
        (\<exists>best h. map_of cmds best = Some h
           \<and> (\<forall>k\<in>set (map fst cmds). scorer cmd k \<le> scorer cmd best)
           \<and> (FUZZY_CONFIDENCE \<le> scorer cmd best \<longrightarrow>
                turn scorer g =
                  sanity_check
                    (h (join '' '' args)
                       (print (Line (''[dim italic]Did you mean '' @ apos @ best @ apos @ ''?[/]''))
                          (prompted r rest g))))
           \<and> (scorer cmd best < FUZZY_CONFIDENCE \<longrightarrow>
                turn scorer g =
                  sanity_check (print (Line ''[dim]Unknown command.[/]'') (prompted r rest g))
                \<and> (exc g = None \<and> 0 < sanity (player g) \<longrightarrow>
                     turn scorer g =
                       (Continue, print (Line ''[dim]Unknown command.[/]'') (prompted r rest g)))
                \<and> print (Line ''[dim]Unknown command.[/]'') (prompted r rest g)
                    = (prompted r rest g)
                        \<lparr>console := console (prompted r rest g) @ [Line ''[dim]Unknown command.[/]'']\<rparr>)))"
proof (intro conjI impI)
  assume "lower (strip l) = []"
  then show "turn scorer g = (Continue, prompted r rest g)"
    using turn_reads [OF assms] by simp
next
  assume a: "split (lower (strip l)) = cmd # args \<and> map_of cmds cmd = None"
  then have ne: "lower (strip l) \<noteq> []" using split_Nil by auto
  from a dispatch_fuzzy [of "lower (strip l)" cmd args scorer "prompted r rest g"]
  obtain best h where b: "map_of cmds best = Some h"
    "\<forall>k\<in>set (map fst cmds). scorer cmd k \<le> scorer cmd best"
    "dispatch scorer (lower (strip l)) (prompted r rest g) =
              (if scorer cmd best \<ge> FUZZY_CONFIDENCE
               then h (join '' '' args)
                      (print (Line (''[dim italic]Did you mean '' @ apos @ best @ apos @ ''?[/]''))
                         (prompted r rest g))
               else print (Line ''[dim]Unknown command.[/]'') (prompted r rest g))"
    by blast
  have t: "turn scorer g = sanity_check (dispatch scorer (lower (strip l)) (prompted r rest g))"
    using turn_reads [OF assms] ne by simp
  have hi: "FUZZY_CONFIDENCE \<le> scorer cmd best \<longrightarrow>
                turn scorer g =
                  sanity_check
                    (h (join '' '' args)
                       (print (Line (''[dim italic]Did you mean '' @ apos @ best @ apos @ ''?[/]''))
                          (prompted r rest g)))"
    using t b(3) by simp
  have lo: "scorer cmd best < FUZZY_CONFIDENCE \<longrightarrow>
                turn scorer g =
                  sanity_check (print (Line ''[dim]Unknown command.[/]'') (prompted r rest g))
                \<and> (exc g = None \<and> 0 < sanity (player g) \<longrightarrow>
                     turn scorer g =
                       (Continue, print (Line ''[dim]Unknown command.[/]'') (prompted r rest g)))
                \<and> print (Line ''[dim]Unknown command.[/]'') (prompted r rest g)
                    = (prompted r rest g)
                        \<lparr>console := console (prompted r rest g) @ [Line ''[dim]Unknown command.[/]'']\<rparr>"
  proof (intro impI conjI)
    assume "scorer cmd best < FUZZY_CONFIDENCE"
    then have d: "dispatch scorer (lower (strip l)) (prompted r rest g)
                    = print (Line ''[dim]Unknown command.[/]'') (prompted r rest g)"
      using b(3) by simp
    show u: "turn scorer g =
               sanity_check (print (Line ''[dim]Unknown command.[/]'') (prompted r rest g))"
      using t d by simp
    show "print (Line ''[dim]Unknown command.[/]'') (prompted r rest g)
            = (prompted r rest g)
                \<lparr>console := console (prompted r rest g) @ [Line ''[dim]Unknown command.[/]'']\<rparr>"
      by (simp add: print_def)
    assume "exc g = None \<and> 0 < sanity (player g)"
    then have "sanity_check (print (Line ''[dim]Unknown command.[/]'') (prompted r rest g))
                 = (Continue, print (Line ''[dim]Unknown command.[/]'') (prompted r rest g))"
      by (simp add: sanity_check_def print_def prompted_fields)
    with u show "turn scorer g =
                   (Continue, print (Line ''[dim]Unknown command.[/]'') (prompted r rest g))"
      by simp
  qed
  from b(1,2) hi lo
  show "\<exists>best h. map_of cmds best = Some h
           \<and> (\<forall>k\<in>set (map fst cmds). scorer cmd k \<le> scorer cmd best)
           \<and> (FUZZY_CONFIDENCE \<le> scorer cmd best \<longrightarrow>
                turn scorer g =
                  sanity_check
                    (h (join '' '' args)
                       (print (Line (''[dim italic]Did you mean '' @ apos @ best @ apos @ ''?[/]''))
                          (prompted r rest g))))
           \<and> (scorer cmd best < FUZZY_CONFIDENCE \<longrightarrow>
                turn scorer g =
                  sanity_check (print (Line ''[dim]Unknown command.[/]'') (prompted r rest g))
                \<and> (exc g = None \<and> 0 < sanity (player g) \<longrightarrow>
                     turn scorer g =
                       (Continue, print (Line ''[dim]Unknown command.[/]'') (prompted r rest g)))
                \<and> print (Line ''[dim]Unknown command.[/]'') (prompted r rest g)
                    = (prompted r rest g)
                        \<lparr>console := console (prompted r rest g) @ [Line ''[dim]Unknown command.[/]'']\<rparr>)"
    by blast
qed (simp_all add: prompted_fields)?

lemma typed_simps:
  "stdin (typed l) = [l]" "room_id (player (typed l)) \<noteq> ''garden''"
  "room_of (typed l) None = Some the_gate" "exc (typed l) = None" "0 < sanity (player (typed l))"
  by (simp_all add: typed_def room_of_def room_key_def demo_game_simps gate_room the_gate_def)
     (simp_all add: demo_game_def new_game_def Let_def STARTING_SANITY_def)

theorem fuzzy_dispatch_witness:
  "stdin (typed ''  '') = [''  ''] \<and> room_id (player (typed ''  '')) \<noteq> ''garden''
   \<and> room_of (typed ''  '') None = Some the_gate \<and> lower (strip ''  '') = []
   \<and> turn typo_scorer (typed ''  '') = (Continue, prompted the_gate [] (typed ''  ''))
   \<and> stdin (typed ''Tke lamp'') = [''Tke lamp'']
   \<and> room_id (player (typed ''Tke lamp'')) \<noteq> ''garden''
   \<and> room_of (typed ''Tke lamp'') None = Some the_gate
   \<and> split (lower (strip ''Tke lamp'')) = [''tke'', ''lamp''] \<and> map_of cmds ''tke'' = None
   \<and> turn typo_scorer (typed ''Tke lamp'') =
       sanity_check
         (take ''lamp''
            (print (Line (''[dim italic]Did you mean '' @ apos @ ''take'' @ apos @ ''?[/]''))
               (prompted the_gate [] (typed ''Tke lamp''))))
   \<and> stdin (typed ''xyzzy'') = [''xyzzy''] \<and> room_id (player (typed ''xyzzy'')) \<noteq> ''garden''
   \<and> room_of (typed ''xyzzy'') None = Some the_gate
   \<and> split (lower (strip ''xyzzy'')) = [''xyzzy''] \<and> map_of cmds ''xyzzy'' = None
   \<and> turn typo_scorer (typed ''xyzzy'') =
       (Continue, print (Line ''[dim]Unknown command.[/]'') (prompted the_gate [] (typed ''xyzzy'')))"
proof -
  have blank: "lower (strip ''  '') = []"
    by (simp add: lower_def strip_def strip_of_def isspace_def)
  have tke: "split (lower (strip ''Tke lamp'')) = [''tke'', ''lamp'']"
    by (simp add: lower_def lower_char_def strip_def strip_of_def split_def isspace_def)
  have xyz: "split (lower (strip ''xyzzy'')) = [''xyzzy'']"
    by (simp add: lower_def lower_char_def strip_def strip_of_def split_def isspace_def)
  have mo: "map_of cmds ''tke'' = None" "map_of cmds ''take'' = Some take"
    "''take'' \<in> set (map fst cmds)" "map_of cmds ''xyzzy'' = None"
    by (simp_all add: cmds_def)
  note B = fuzzy_dispatch [OF typed_simps(1,2,3), of "''  ''" typo_scorer]
  note T = fuzzy_dispatch [OF typed_simps(1,2,3), of "''Tke lamp''" typo_scorer "''tke''" "[''lamp'']"]
  note U = fuzzy_dispatch [OF typed_simps(1,2,3), of "''xyzzy''" typo_scorer "''xyzzy''" "[]"]
  have b: "turn typo_scorer (typed ''  '') = (Continue, prompted the_gate [] (typed ''  ''))"
    using B blank by blast
  from T tke mo(1) obtain best h where t: "map_of cmds best = Some h"
    "\<forall>k\<in>set (map fst cmds). typo_scorer ''tke'' k \<le> typo_scorer ''tke'' best"
    "FUZZY_CONFIDENCE \<le> typo_scorer ''tke'' best \<longrightarrow>
       turn typo_scorer (typed ''Tke lamp'') =
         sanity_check
           (h (join '' '' [''lamp''])
              (print (Line (''[dim italic]Did you mean '' @ apos @ best @ apos @ ''?[/]''))
                 (prompted the_gate [] (typed ''Tke lamp''))))"
    by blast
  from t(2) mo(3) have "typo_scorer ''tke'' ''take'' \<le> typo_scorer ''tke'' best" by blast
  then have best: "best = ''take''" by (simp add: typo_scorer_def split: if_splits)
  with t(1) mo(2) have h: "h = take" by simp
  have tt: "turn typo_scorer (typed ''Tke lamp'') =
       sanity_check
         (take ''lamp''
            (print (Line (''[dim italic]Did you mean '' @ apos @ ''take'' @ apos @ ''?[/]''))
               (prompted the_gate [] (typed ''Tke lamp''))))"
    using t(3) by (simp add: best h typo_scorer_def FUZZY_CONFIDENCE_def)
  from U xyz mo(4) obtain best' h' where u:
    "typo_scorer ''xyzzy'' best' < FUZZY_CONFIDENCE \<longrightarrow>
       (exc (typed ''xyzzy'') = None \<and> 0 < sanity (player (typed ''xyzzy'')) \<longrightarrow>
          turn typo_scorer (typed ''xyzzy'') =
            (Continue, print (Line ''[dim]Unknown command.[/]'') (prompted the_gate [] (typed ''xyzzy''))))"
    by blast
  have uu: "turn typo_scorer (typed ''xyzzy'') =
       (Continue, print (Line ''[dim]Unknown command.[/]'') (prompted the_gate [] (typed ''xyzzy'')))"
    using u typed_simps(4,5) [of "''xyzzy''"] by (simp add: typo_scorer_def FUZZY_CONFIDENCE_def)
  show ?thesis
    using typed_simps(1,2,3) blank b tke mo(1) tt xyz mo(4) uu by simp
qed

end
